theory Spec2Isabelle
  imports Complex_Main "HOL-Library.AList"
begin

section \<open>JavaScript values\<close>

text \<open>
  The plugin is TypeScript. A \<^verbatim>\<open>number\<close> is modelled by a real (rounding of IEEE doubles
  is not part of the model), an optional or nullable field by an option. A number used
  as a condition is false exactly when it is zero. A \<^verbatim>\<open>string\<close> is modelled by a
  \<^typ>\<open>string\<close>, the bytes of its UTF-8 encoding: a character of ASCII is one element, any
  other character a sequence of two to four. The code compares strings, joins them,
  tests them for emptiness and for ASCII texts inside them or at their end, and trims
  them. The one place where it cuts a string by a number of characters, the preview of
  a chunk in a prompt, is inside the text of the prompt, which is not modelled.
\<close>

text \<open>
  The white space of \<^verbatim>\<open>String.prototype.trim\<close> is \<^verbatim>\<open>WhiteSpace\<close> and \<^verbatim>\<open>LineTerminator\<close> of
  ECMAScript: U+0009 to U+000D, U+0020, U+00A0, U+1680, U+2000 to U+200A, U+2028,
  U+2029, U+202F, U+205F, U+3000 and U+FEFF. \<open>whiteSpace\<close> lists their encodings: the
  six of one byte, \<^verbatim>\<open>C2 A0\<close>, \<^verbatim>\<open>E1 9A 80\<close>, the fourteen that begin with \<^verbatim>\<open>E2 80\<close>,
  \<^verbatim>\<open>E2 81 9F\<close>, \<^verbatim>\<open>E3 80 80\<close> and \<^verbatim>\<open>EF BB BF\<close>.
\<close>

definition whiteSpace :: "string list" where
  "whiteSpace =
     map (\<lambda>c. [c]) [CHR 0x09, CHR 0x0A, CHR 0x0B, CHR 0x0C, CHR 0x0D, CHR 0x20]
     @ [CHR 0xC2, CHR 0xA0]
     # [CHR 0xE1, CHR 0x9A, CHR 0x80]
     # map (\<lambda>c. [CHR 0xE2, CHR 0x80, c])
         [CHR 0x80, CHR 0x81, CHR 0x82, CHR 0x83, CHR 0x84, CHR 0x85, CHR 0x86, CHR 0x87,
          CHR 0x88, CHR 0x89, CHR 0x8A, CHR 0xA8, CHR 0xA9, CHR 0xAF]
     @ [CHR 0xE2, CHR 0x81, CHR 0x9F]
     # [CHR 0xE3, CHR 0x80, CHR 0x80]
     # [CHR 0xEF, CHR 0xBB, CHR 0xBF]
     # []"

text \<open>
  \<open>stripStart ps s\<close> removes from the start of \<open>s\<close> every sequence of \<open>ps\<close>, one after the
  other, until none of them is at the start; \<open>stripped ps s\<close> says that none is.
\<close>

fun stripStart :: "string list \<Rightarrow> string \<Rightarrow> string" where
  "stripStart ps [] = []"
| "stripStart ps (c # cs) =
     (case find (\<lambda>p. p \<noteq> [] \<and> take (length p) (c # cs) = p) ps of
        None \<Rightarrow> c # cs
      | Some p \<Rightarrow> stripStart ps (drop (length p - 1) cs))"

definition stripped :: "string list \<Rightarrow> string \<Rightarrow> bool" where
  "stripped ps s = (\<forall>p \<in> set ps. p \<noteq> [] \<longrightarrow> take (length p) s \<noteq> p)"

text \<open>
  \<^verbatim>\<open>String.prototype.trim\<close>: white space is removed at both ends, at the end by reading
  the string and the encodings backwards.
\<close>

definition trim :: "string \<Rightarrow> string" where
  "trim s = rev (stripStart (map rev whiteSpace) (rev (stripStart whiteSpace s)))"

text \<open>\<^verbatim>\<open>Math.round\<close> rounds to the nearest integer, a half upwards.\<close>

definition Math_round :: "real \<Rightarrow> real" where
  "Math_round x = of_int \<lfloor>x + 1 / 2\<rfloor>"

text \<open>\<^verbatim>\<open>String.prototype.includes\<close> and a test for a suffix.\<close>

fun includes_str :: "string \<Rightarrow> string \<Rightarrow> bool" where
  "includes_str [] sub = (sub = [])"
| "includes_str (c # cs) sub = (take (length sub) (c # cs) = sub \<or> includes_str cs sub)"

definition endsWith :: "string \<Rightarrow> string \<Rightarrow> bool" where
  "endsWith s suffix =
     (length suffix \<le> length s \<and> drop (length s - length suffix) s = suffix)"

text \<open>
  A value read from a JSON reply is not known to be a finite number: \<open>jsnum\<close> adds
  \<^verbatim>\<open>NaN\<close> and the two infinities, and \<open>jsval\<close> is a value of any type, an object or array
  being kept as the string it converts to.
\<close>

datatype jsnum = NaN | Fin real | PosInf | NegInf

datatype jsval = JUndefined | JNull | JBool bool | JNum jsnum | JStr string | JObj string

definition isNaN :: "jsnum \<Rightarrow> bool" where
  "isNaN n = (n = NaN)"

fun Math_round_js :: "jsnum \<Rightarrow> jsnum" where
  "Math_round_js (Fin x) = Fin (Math_round x)"
| "Math_round_js n = n"

fun Math_min :: "jsnum \<Rightarrow> jsnum \<Rightarrow> jsnum" where
  "Math_min NaN b = NaN"
| "Math_min a NaN = NaN"
| "Math_min NegInf b = NegInf"
| "Math_min a NegInf = NegInf"
| "Math_min PosInf b = b"
| "Math_min a PosInf = a"
| "Math_min (Fin x) (Fin y) = Fin (min x y)"

fun Math_max :: "jsnum \<Rightarrow> jsnum \<Rightarrow> jsnum" where
  "Math_max NaN b = NaN"
| "Math_max a NaN = NaN"
| "Math_max PosInf b = PosInf"
| "Math_max a PosInf = PosInf"
| "Math_max NegInf b = b"
| "Math_max a NegInf = a"
| "Math_max (Fin x) (Fin y) = Fin (max x y)"

text \<open>The truth value of a value, as \<^verbatim>\<open>!v\<close>, \<^verbatim>\<open>v || w\<close> and \<^verbatim>\<open>Boolean(v)\<close> take it.\<close>

fun truthy :: "jsval \<Rightarrow> bool" where
  "truthy JUndefined = False"
| "truthy JNull = False"
| "truthy (JBool b) = b"
| "truthy (JNum n) = (n \<noteq> NaN \<and> n \<noteq> Fin 0)"
| "truthy (JStr s) = (s \<noteq> '''')"
| "truthy (JObj s) = True"

text \<open>What is thrown: an \<^verbatim>\<open>Error\<close> with its name and message, or some other value.\<close>

datatype thrown = ErrorObject string string | NonError string

section \<open>Chunks\<close>

datatype importance = Low | Medium | High

datatype ChunkType = Knowledge

record Chunk =
  id_chunk :: string
  notePath :: string
  content :: string
  chunkType :: ChunkType
  importanceLevel :: importance
  needsReview :: bool
  sm2Ef :: real
  sm2Repetitions :: real
  sm2IntervalDays :: real
  familiarScore :: real
  dueAt :: real
  createdAt :: real
  lastReviewedAt :: "real option"
  chunkScore :: "real option"

subsection \<open>ChunkManager.computeChunkScore\<close>

text \<open>
  The source reads the clock itself (\<^verbatim>\<open>Date.now()\<close>); here the reading is the argument
  \<open>now\<close>. The test \<^verbatim>\<open>chunk.dueAt ? ... : 0\<close> is the truth value of a number: a chunk
  whose due time is 0 counts as a chunk without due time. \<^verbatim>\<open>chunk.familiarScore ?? 0\<close> is
  the familiarity itself, the field being a number.
\<close>

definition computeChunkScore :: "Chunk \<Rightarrow> real \<Rightarrow> real" where
  "computeChunkScore chunk now =
     (let importance =
            (if importanceLevel chunk = High then 2
             else if importanceLevel chunk = Medium then 1 else 0);
          familiarity = 1 - familiarScore chunk;
          dueBoost =
            (if dueAt chunk \<noteq> 0
             then 4 / (1 + exp (- (now - dueAt chunk) / (1000 * 60 * 60 * 24)))
             else 0)
      in importance + familiarity + dueBoost)"

text \<open>
  The three summands under the names the specification gives them, to be compared with
  the function above: the weight of an importance level, and the boost as a function of
  the due time and the current time.
\<close>

definition importanceWeight :: "importance \<Rightarrow> real" where
  "importanceWeight level = (case level of High \<Rightarrow> 2 | Medium \<Rightarrow> 1 | Low \<Rightarrow> 0)"

definition dueBoost :: "real \<Rightarrow> real \<Rightarrow> real" where
  "dueBoost due now =
     (if due \<noteq> 0 then 4 / (1 + exp (- (now - due) / (1000 * 60 * 60 * 24))) else 0)"

section \<open>LLMService: data\<close>

record LLMChunk =
  content_llm :: "string option"

record ExistingChunk =
  id_existing :: string
  content_existing :: string
  importance_level :: importance
  needs_review :: bool

datatype action = Keep | Modify | Delete

datatype updateLevel = Minor | Moderate | Major

record IncrementalChunkDecision =
  id_decision :: string
  action :: action
  modified_content :: "string option"
  update_level :: "updateLevel option"

text \<open>
  The arrays of a reply come out of \<^verbatim>\<open>JSON.parse\<close> and are cast to their declared types,
  not checked, so an element is any JSON value. What the manager does with an element
  depends on this much of it:

  \<^item> \<open>NullElement\<close>: the element is \<^verbatim>\<open>null\<close>; reading a property of it throws.

  \<^item> \<open>TypedElement x\<close>: the element is an object that is read as the value \<open>x\<close> of the
    declared type. In a decision, an \<^verbatim>\<open>action\<close> that is neither \<^verbatim>\<open>'delete'\<close> nor \<^verbatim>\<open>'modify'\<close>
    is read as \<open>Keep\<close>; an \<^verbatim>\<open>update_level\<close> that counts as false is read as \<open>None\<close>, and one
    that counts as true and is none of the three names as \<open>Major\<close>, whose branch it
    takes; a content that counts as false is read as \<open>None\<close>.

  \<^item> \<open>NonStringContent x\<close>: as \<open>x\<close>, except that the content (\<^verbatim>\<open>modified_content\<close> of a
    decision, \<^verbatim>\<open>content\<close> of a new chunk) is a value that counts as true and is not a
    string, so that it has no \<^verbatim>\<open>trim\<close> and calling it throws. The content of \<open>x\<close> is
    not read.

  \<^item> \<open>OtherElement\<close>: any other value, that is a boolean, a number, a string, an array,
    or an object whose \<^verbatim>\<open>id\<close> is not a string: every property that the code reads of
    it is \<^verbatim>\<open>undefined\<close> or equal to no id, and the element is passed over.
\<close>

datatype 'a element = NullElement | OtherElement | NonStringContent 'a | TypedElement 'a

record IncrementalLLMResponse =
  existing_chunks :: "IncrementalChunkDecision element list"
  new_chunks :: "LLMChunk element list"

datatype language = Zh | En

datatype sender = System | User

record PushConversationHistory =
  sender :: sender
  content_history :: string

record PushQuestionParams =
  chunkContent :: string
  familiarScore_params :: real
  language :: "language option"

record PushResponseParams = PushQuestionParams +
  history :: "PushConversationHistory list"
  forceEvaluate :: "bool option"

record PushEvaluationResult =
  grade :: jsnum
  recommendation :: jsval
  confidence :: "jsnum option"

record PushResponseResult =
  response :: string
  shouldEnd :: bool
  evaluation :: "PushEvaluationResult option"

text \<open>
  The four prompts are long fixed texts with the arguments filled in; a prompt is
  modelled by the builder and its arguments.
\<close>

datatype prompt =
    BuildPrompt string string
  | BuildIncrementalPrompt string string "ExistingChunk list"
  | BuildPushQuestionPrompt PushQuestionParams
  | BuildPushResponsePrompt PushResponseParams

text \<open>
  The request handed to \<^verbatim>\<open>requestUrl\<close>: the address, the \<^verbatim>\<open>Authorization\<close> header, and
  the model, the prompt and the temperature of the body.
\<close>

record RequestUrlParam =
  url :: string
  authorization :: string
  model_body :: string
  prompt_body :: prompt
  temperature :: real

text \<open>
  What the code reads of a response. \<^verbatim>\<open>response.json\<close> may throw when it is read, may be
  something that is not an object (or \<^verbatim>\<open>null\<close>), or is an object, of which the code
  reads \<^verbatim>\<open>error.message\<close>, \<^verbatim>\<open>message\<close> and \<^verbatim>\<open>choices[0].message.content\<close>. \<open>choice\<close> is
  \<open>None\<close> when \<^verbatim>\<open>choices\<close>, \<^verbatim>\<open>choices[0]\<close> or \<^verbatim>\<open>choices[0].message\<close> is missing or false,
  and else \<open>Some\<close> of the content, which itself may be missing.
\<close>

record ApiBody =
  error_message :: "string option"
  message :: "string option"
  choice :: "string option option"

datatype jsonView = JsonThrows thrown | JsonOther | JsonObject ApiBody

record RequestUrlResponse =
  status :: int
  json :: jsonView
  text_response :: string

text \<open>
  \<^verbatim>\<open>LLMConfig\<close>. The interface declares \<^verbatim>\<open>requestUrl\<close>, the HTTP transport, as a field that
  is always there; the object that \<^verbatim>\<open>ChunkManager\<close> hands to the constructor has the
  other four fields only, so the field is an option here. The transport answers a
  request with a response or throws (\<open>Inl\<close>).
\<close>

record LLMConfig =
  apiKey :: string
  apiBase :: "string option"
  model :: "string option"
  timeout :: "real option"
  requestUrl :: "(RequestUrlParam \<Rightarrow> thrown + RequestUrlResponse) option"

text \<open>
  What the code reads of the value that \<^verbatim>\<open>JSON.parse\<close> returns for the content of a
  reply. The value may be \<^verbatim>\<open>null\<close>, on which reading a property throws. A field that
  should hold an array may be missing or false, may be something else that is not an
  array, or is an array of elements.
\<close>

datatype 'a arrayField = Falsy | NotArray | IsArray "'a list"

datatype parsedChunks = ChunksNull | ChunksValue "LLMChunk element arrayField"

datatype parsedIncremental =
    IncrementalNull
  | IncrementalValue "IncrementalChunkDecision element arrayField" "LLMChunk element arrayField"

record evaluationJson =
  grade_json :: jsval
  recommendation_json :: jsval
  confidence_json :: jsval

text \<open>
  \<open>evaluation_json\<close> is \<open>Some\<close> exactly when \<^verbatim>\<open>result.evaluation\<close> is an object and not
  \<^verbatim>\<open>null\<close>.
\<close>

record JsonPromptResult =
  question_json :: jsval
  response_json :: jsval
  should_end :: jsval
  evaluation_json :: "evaluationJson option"

datatype parsedPrompt = PromptNull | PromptValue JsonPromptResult

section \<open>The environment\<close>

text \<open>
  What the code takes from outside is collected in one record: the clock (\<open>Date_now e n\<close>
  is the \<open>n\<close>-th reading of \<^verbatim>\<open>Date.now()\<close>), the random suffix of a chunk id
  (\<open>randomSuffix e n\<close> is \<^verbatim>\<open>Math.random().toString(36).substr(2, 9)\<close> at the \<open>n\<close>-th
  draw), the conversions between numbers and strings, \<^verbatim>\<open>JSON.parse\<close> (read at the three
  types at which the code casts its result; \<open>Inl\<close> is the message of the syntax error),
  the messages of the two type errors of the engine (\<open>nullPropertyMessage e p\<close> when the
  property \<open>p\<close> of \<^verbatim>\<open>null\<close> is read, \<open>notFunctionMessage e f\<close> when the expression \<open>f\<close> is
  called and is no function), and \<^verbatim>\<open>SM2Algorithm.getImportanceMultiplier\<close>, whose table
  is not part of the sources at hand and is therefore a parameter.
\<close>

record env =
  Date_now :: "nat \<Rightarrow> real"
  randomSuffix :: "nat \<Rightarrow> string"
  numberToString :: "real \<Rightarrow> string"
  getImportanceMultiplier :: "importance \<Rightarrow> real"
  JSON_parse_chunks :: "string \<Rightarrow> string + parsedChunks"
  JSON_parse_incremental :: "string \<Rightarrow> string + parsedIncremental"
  JSON_parse_prompt :: "string \<Rightarrow> string + parsedPrompt"
  nullPropertyMessage :: "string \<Rightarrow> string"
  notFunctionMessage :: "string \<Rightarrow> string"
  StringToNumber :: "string \<Rightarrow> jsnum"
  NumberToString :: "jsnum \<Rightarrow> string"

text \<open>
  \<^verbatim>\<open>Number(v)\<close> and \<^verbatim>\<open>String(v)\<close>; the conversions between strings and numbers are
  the environment's.
\<close>

fun Number :: "env \<Rightarrow> jsval \<Rightarrow> jsnum" where
  "Number e JUndefined = NaN"
| "Number e JNull = Fin 0"
| "Number e (JBool b) = Fin (if b then 1 else 0)"
| "Number e (JNum n) = n"
| "Number e (JStr s) = StringToNumber e s"
| "Number e (JObj s) = StringToNumber e s"

fun String :: "env \<Rightarrow> jsval \<Rightarrow> string" where
  "String e JUndefined = ''undefined''"
| "String e JNull = ''null''"
| "String e (JBool b) = (if b then ''true'' else ''false'')"
| "String e (JNum n) = NumberToString e n"
| "String e (JStr s) = s"
| "String e (JObj s) = s"

section \<open>LLMService\<close>

text \<open>\<^verbatim>\<open>a || b\<close> on strings: the first if it is there and not empty, else the second.\<close>

definition orElse :: "string option \<Rightarrow> string \<Rightarrow> string" where
  "orElse a b = (case a of None \<Rightarrow> b | Some s \<Rightarrow> if s = '''' then b else s)"

text \<open>
  \<^verbatim>\<open>apiBase.trim().replace(/\/+$/, '').replace(/\/chat\/completions\/?$/, '')\<close>
\<close>

definition normalizeApiBase :: "string \<Rightarrow> string" where
  "normalizeApiBase b =
     (let b1 = trim b;
          b2 = rev (dropWhile (\<lambda>c. c = CHR ''/'') (rev b1))
      in if endsWith b2 ''/chat/completions/''
         then take (length b2 - length ''/chat/completions/'') b2
         else if endsWith b2 ''/chat/completions''
         then take (length b2 - length ''/chat/completions'') b2
         else b2)"

definition requestParam :: "LLMConfig \<Rightarrow> prompt \<Rightarrow> real \<Rightarrow> RequestUrlParam" where
  "requestParam config p t =
     \<lparr>url = normalizeApiBase (orElse (apiBase config) ''https://api.openai.com/v1'')
              @ ''/chat/completions'',
      authorization = ''Bearer '' @ apiKey config,
      model_body = orElse (model config) ''gpt-3.5-turbo'',
      prompt_body = p,
      temperature = t\<rparr>"

text \<open>
  The part of the \<^verbatim>\<open>try\<close> block that \<^verbatim>\<open>extractChunks\<close> and \<^verbatim>\<open>extractChunksIncremental\<close>
  have in common, from the test of the status to the test of the content; \<open>Inl\<close> is
  what is thrown.
\<close>

definition readContent :: "env \<Rightarrow> RequestUrlResponse \<Rightarrow> thrown + string" where
  "readContent e r =
     (if status r < 200 \<or> status r \<ge> 300
      then (let errorMessage = ''HTTP '' @ numberToString e (of_int (status r));
                errorMessage' =
                  (case json r of
                     JsonObject b \<Rightarrow>
                       orElse (error_message b)
                         (orElse (message b) (orElse (Some (text_response r)) errorMessage))
                   | _ \<Rightarrow> orElse (Some (text_response r)) errorMessage)
            in Inl (ErrorObject ''Error'' (''LLM API error: '' @ errorMessage')))
      else (case json r of
              JsonThrows t \<Rightarrow> Inl t
            | JsonOther \<Rightarrow> Inl (ErrorObject ''TypeError'' (nullPropertyMessage e ''choices''))
            | JsonObject b \<Rightarrow>
                (case choice b of
                   None \<Rightarrow> Inl (ErrorObject ''Error'' ''Invalid response format from LLM API'')
                 | Some None \<Rightarrow> Inl (ErrorObject ''Error'' ''Empty response from LLM API'')
                 | Some (Some c) \<Rightarrow>
                     if c = '''' then Inl (ErrorObject ''Error'' ''Empty response from LLM API'')
                     else Inr c)))"

text \<open>
  The \<^verbatim>\<open>catch\<close> block of the two functions: the message of the error that is thrown
  on. \<open>prefix\<close> is the text that differs between the two.
\<close>

definition rethrow :: "string \<Rightarrow> string \<Rightarrow> thrown \<Rightarrow> string" where
  "rethrow prefix base error =
     (case error of
        ErrorObject n m \<Rightarrow>
          if n = ''AbortError'' \<or> n = ''TimeoutError''
          then ''Request timeout. Please check your network connection or try again.''
          else if includes_str m ''Failed to fetch'' \<or> includes_str m ''ERR_CONNECTION''
          then ''Network error: Cannot connect to '' @ base
                 @ ''. Please check your network connection and API endpoint.''
          else prefix @ m
      | NonError v \<Rightarrow> prefix @ v)"


text \<open>
  \<^verbatim>\<open>this.config.requestUrl(param)\<close>: calling the transport of a configuration that has
  none throws the type error of the engine.
\<close>

definition callRequestUrl ::
  "env \<Rightarrow> LLMConfig \<Rightarrow> RequestUrlParam \<Rightarrow> thrown + RequestUrlResponse" where
  "callRequestUrl e config param =
     (case requestUrl config of
        None \<Rightarrow> Inl (ErrorObject ''TypeError'' (notFunctionMessage e ''this.config.requestUrl''))
      | Some transport \<Rightarrow> transport param)"

text \<open>
  \<^verbatim>\<open>extractChunks\<close>: \<open>tryExtractChunks\<close> is its \<^verbatim>\<open>try\<close> block, whose \<open>Inl\<close> is what is thrown
  inside the block; the function itself throws an \<^verbatim>\<open>Error\<close>, of which \<open>Inl\<close> is the message.
\<close>

definition tryExtractChunks ::
  "env \<Rightarrow> LLMConfig \<Rightarrow> string \<Rightarrow> string \<Rightarrow> thrown + LLMChunk element list" where
  "tryExtractChunks e config noteTitle noteContent =
     (case callRequestUrl e config (requestParam config (BuildPrompt noteTitle noteContent) 0.3) of
        Inl t \<Rightarrow> Inl t
      | Inr r \<Rightarrow>
          (case readContent e r of
             Inl t \<Rightarrow> Inl t
           | Inr c \<Rightarrow>
               (case JSON_parse_chunks e c of
                  Inl errorMessage \<Rightarrow>
                    Inl (ErrorObject ''Error''
                           (''Failed to parse LLM response as JSON: '' @ errorMessage))
                | Inr ChunksNull \<Rightarrow>
                    Inl (ErrorObject ''TypeError'' (nullPropertyMessage e ''chunks''))
                | Inr (ChunksValue Falsy) \<Rightarrow> Inr []
                | Inr (ChunksValue NotArray) \<Rightarrow>
                    Inl (ErrorObject ''Error'' ''LLM response chunks is not an array'')
                | Inr (ChunksValue (IsArray cs)) \<Rightarrow> Inr cs)))"

definition extractChunks ::
  "env \<Rightarrow> LLMConfig \<Rightarrow> string \<Rightarrow> string \<Rightarrow> string + LLMChunk element list" where
  "extractChunks e config noteTitle noteContent =
     (if apiKey config = '''' then Inl ''LLM API key not configured''
      else
       (let base = normalizeApiBase (orElse (apiBase config) ''https://api.openai.com/v1'')
        in case tryExtractChunks e config noteTitle noteContent of
             Inl t \<Rightarrow> Inl (rethrow ''Failed to extract chunks: '' base t)
           | Inr cs \<Rightarrow> Inr cs))"

definition arrayOrEmpty :: "'a arrayField \<Rightarrow> 'a list option" where
  "arrayOrEmpty f = (case f of Falsy \<Rightarrow> Some [] | NotArray \<Rightarrow> None | IsArray xs \<Rightarrow> Some xs)"

text \<open>\<^verbatim>\<open>extractChunksIncremental\<close>, in the same two parts.\<close>

definition tryExtractChunksIncremental ::
  "env \<Rightarrow> LLMConfig \<Rightarrow> string \<Rightarrow> string \<Rightarrow> ExistingChunk list
     \<Rightarrow> thrown + IncrementalLLMResponse" where
  "tryExtractChunksIncremental e config noteTitle noteContent existingChunks =
     (case callRequestUrl e config
             (requestParam config
                (BuildIncrementalPrompt noteTitle noteContent existingChunks) 0.3) of
        Inl t \<Rightarrow> Inl t
      | Inr r \<Rightarrow>
          (case readContent e r of
             Inl t \<Rightarrow> Inl t
           | Inr c \<Rightarrow>
               (case JSON_parse_incremental e c of
                  Inl errorMessage \<Rightarrow>
                    Inl (ErrorObject ''Error''
                           (''Failed to parse LLM response as JSON: '' @ errorMessage))
                | Inr IncrementalNull \<Rightarrow>
                    Inl (ErrorObject ''TypeError'' (nullPropertyMessage e ''existing_chunks''))
                | Inr (IncrementalValue existing new) \<Rightarrow>
                    (case (arrayOrEmpty existing, arrayOrEmpty new) of
                       (Some ds, Some cs) \<Rightarrow> Inr \<lparr>existing_chunks = ds, new_chunks = cs\<rparr>
                     | _ \<Rightarrow>
                         Inl (ErrorObject ''Error''
                                (''LLM response format invalid: ''
                                 @ ''existing_chunks and new_chunks must be arrays''))))))"

definition extractChunksIncremental ::
  "env \<Rightarrow> LLMConfig \<Rightarrow> string \<Rightarrow> string \<Rightarrow> ExistingChunk list
     \<Rightarrow> string + IncrementalLLMResponse" where
  "extractChunksIncremental e config noteTitle noteContent existingChunks =
     (if apiKey config = '''' then Inl ''LLM API key not configured''
      else
       (let base = normalizeApiBase (orElse (apiBase config) ''https://api.openai.com/v1'')
        in case tryExtractChunksIncremental e config noteTitle noteContent existingChunks of
             Inl t \<Rightarrow> Inl (rethrow ''Failed to extract chunks incrementally: '' base t)
           | Inr res \<Rightarrow> Inr res))"

text \<open>\<^verbatim>\<open>callJsonPrompt\<close> has no \<^verbatim>\<open>catch\<close>: what is thrown reaches the caller as it is.\<close>

definition callJsonPrompt :: "env \<Rightarrow> LLMConfig \<Rightarrow> prompt \<Rightarrow> thrown + parsedPrompt" where
  "callJsonPrompt e config p =
     (if apiKey config = '''' then Inl (ErrorObject ''Error'' ''LLM API key not configured'')
      else
        case callRequestUrl e config (requestParam config p 0.4) of
          Inl t \<Rightarrow> Inl t
        | Inr r \<Rightarrow>
            if status r < 200 \<or> status r \<ge> 300
            then Inl (ErrorObject ''Error''
                        (orElse (Some (text_response r)) (''HTTP '' @ numberToString e (of_int (status r)))))
            else
              (case json r of
                 JsonThrows t \<Rightarrow> Inl t
               | JsonOther \<Rightarrow> Inl (ErrorObject ''Error'' ''Empty response from LLM API'')
               | JsonObject b \<Rightarrow>
                   (case choice b of
                      Some (Some c) \<Rightarrow>
                        if c = '''' then Inl (ErrorObject ''Error'' ''Empty response from LLM API'')
                        else (case JSON_parse_prompt e c of
                                Inl m \<Rightarrow> Inl (ErrorObject ''SyntaxError'' m)
                              | Inr v \<Rightarrow> Inr v)
                    | _ \<Rightarrow> Inl (ErrorObject ''Error'' ''Empty response from LLM API''))))"

definition generatePushResponse ::
  "env \<Rightarrow> LLMConfig \<Rightarrow> PushResponseParams \<Rightarrow> thrown + PushResponseResult" where
  "generatePushResponse e config params =
     (case callJsonPrompt e config (BuildPushResponsePrompt params) of
        Inl t \<Rightarrow> Inl t
      | Inr PromptNull \<Rightarrow> Inl (ErrorObject ''TypeError'' (nullPropertyMessage e ''response''))
      | Inr (PromptValue result) \<Rightarrow>
          if \<not> truthy (response_json result)
          then Inl (ErrorObject ''Error'' ''LLM response missing answer text'')
          else
           (let grade0 = Fin 3;
                grade1 =
                  (case evaluation_json result of
                     None \<Rightarrow> grade0
                   | Some ev \<Rightarrow>
                       if grade_json ev \<noteq> JUndefined \<and> grade_json ev \<noteq> JNull
                       then (let parsedGrade = Number e (grade_json ev)
                             in if \<not> isNaN parsedGrade
                                then Math_max (Fin 0) (Math_min (Fin 5) (Math_round_js parsedGrade))
                                else grade0)
                       else grade0)
            in Inr \<lparr>response = trim (String e (response_json result)),
                    shouldEnd = truthy (should_end result),
                    evaluation =
                      (case evaluation_json result of
                         None \<Rightarrow> None
                       | Some ev \<Rightarrow>
                           Some \<lparr>grade = grade1,
                                 recommendation =
                                   (if truthy (recommendation_json ev) then recommendation_json ev
                                    else JStr ''''),
                                 confidence =
                                   (if confidence_json ev \<noteq> JUndefined
                                    then Some (Number e (confidence_json ev)) else None)\<rparr>)\<rparr>))"

section \<open>PushManager\<close>

text \<open>
  Modelled from the spec: the class \<^verbatim>\<open>PushManager\<close> and the types \<^verbatim>\<open>StoredPush\<close> and
  \<^verbatim>\<open>StoredPushMessage\<close> are not among the sources. The specification says that a push is
  bound to one chunk through \<^verbatim>\<open>chunkId\<close>, that its messages belong to it, and that
  \<^verbatim>\<open>deletePushesForChunk(chunkId)\<close> removes the pushes of the chunk and their messages.
  The plugin stores the pushes as a record keyed by push id and the messages as one
  array (\<^verbatim>\<open>persistPushes\<close> in \<^verbatim>\<open>main.ts\<close>).
\<close>

datatype pushState = Pending | Active | Completed | Expired

record StoredPush =
  id_push :: string
  chunkId :: string
  state :: pushState

record StoredPushMessage =
  id_message :: string
  pushId :: string
  content_message :: string

record PushManager =
  pushes :: "(string \<times> StoredPush) list"
  pushMessages :: "StoredPushMessage list"

text \<open>
  Modelled from the spec: \<^verbatim>\<open>PushManager.deletePushesForChunk\<close>, which is not among the
  sources. It removes the pushes bound to the chunk and the messages of these pushes,
  and nothing else.
\<close>

definition deletePushesForChunk :: "string \<Rightarrow> PushManager \<Rightarrow> PushManager" where
  "deletePushesForChunk cid pm =
     (let doomed = map fst (filter (\<lambda>(k, p). chunkId p = cid) (pushes pm))
      in pm\<lparr>pushes := filter (\<lambda>(k, p). chunkId p \<noteq> cid) (pushes pm),
            pushMessages := filter (\<lambda>m. pushId m \<notin> set doomed) (pushMessages pm)\<rparr>)"

section \<open>ChunkManager\<close>

text \<open>
  The manager holds the chunks in a \<^verbatim>\<open>Map\<close>, which keeps the order of insertion: an
  association list with \<^const>\<open>AList.update\<close> (replace in place, or append) and
  \<^const>\<open>AList.delete\<close>. \<open>persisted\<close> is \<^verbatim>\<open>plugin.dataStore.chunks\<close>, the copy written by
  \<^verbatim>\<open>saveChunks\<close>; \<open>notices\<close> are the messages shown to the user; \<open>clock\<close> and \<open>draws\<close>
  count the readings of the clock and of the random generator; \<open>pushManager\<close> is
  \<^verbatim>\<open>plugin.pushManager\<close>, absent until the plugin has created it.
\<close>

datatype notice =
    NoActiveNote
  | ApiKeyNotConfigured
  | ExtractingChunks
  | ExtractedChunks nat string
  | NoChunksExtracted
  | ExtractedSummary nat nat nat
  | ExtractionFailed string

record manager =
  chunks :: "(string \<times> Chunk) list"
  persisted :: "(string \<times> Chunk) list"
  notices :: "notice list"
  clock :: nat
  draws :: nat
  pushManager :: "PushManager option"

definition saveChunks :: "manager \<Rightarrow> manager" where
  "saveChunks s = s\<lparr>persisted := chunks s\<rparr>"

definition addChunk :: "Chunk \<Rightarrow> manager \<Rightarrow> manager" where
  "addChunk chunk s = s\<lparr>chunks := AList.update (id_chunk chunk) chunk (chunks s)\<rparr>"

definition getChunk :: "string \<Rightarrow> manager \<Rightarrow> Chunk option" where
  "getChunk i s = map_of (chunks s) i"

definition getAllChunks :: "manager \<Rightarrow> Chunk list" where
  "getAllChunks s = map snd (chunks s)"

definition getChunksByNotePath :: "string \<Rightarrow> manager \<Rightarrow> Chunk list" where
  "getChunksByNotePath p s = filter (\<lambda>chunk. notePath chunk = p) (getAllChunks s)"

definition notify :: "notice \<Rightarrow> manager \<Rightarrow> manager" where
  "notify n s = s\<lparr>notices := notices s @ [n]\<rparr>"

subsection \<open>ChunkManager.createNewChunk\<close>

text \<open>
  The clock is read twice, at index \<open>t\<close> for \<open>now\<close> and at \<open>t + 1\<close> inside
  \<^verbatim>\<open>computeChunkScore\<close>; the random generator once, at index \<open>r\<close>.
\<close>

definition createNewChunk :: "env \<Rightarrow> nat \<Rightarrow> nat \<Rightarrow> string \<Rightarrow> string \<Rightarrow> Chunk" where
  "createNewChunk e t r txt np =
     (let now = Date_now e t;
          level = Medium;
          familiar = 0;
          initialIntervalDays = 1;
          importanceMultiplier = getImportanceMultiplier e level;
          adjustedIntervalDays = max 1 (Math_round (initialIntervalDays * importanceMultiplier));
          due = now + adjustedIntervalDays * 24 * 60 * 60 * 1000;
          chunk = \<lparr>id_chunk = np @ ''-'' @ numberToString e now @ ''-'' @ randomSuffix e r,
                   notePath = np, content = trim txt, chunkType = Knowledge,
                   importanceLevel = level, needsReview = True, sm2Ef = 2.5,
                   sm2Repetitions = 0, sm2IntervalDays = adjustedIntervalDays,
                   familiarScore = familiar, dueAt = due, createdAt = now,
                   lastReviewedAt = None, chunkScore = None\<rparr>
      in chunk\<lparr>chunkScore := Some (computeChunkScore chunk (Date_now e (t + 1)))\<rparr>)"

subsection \<open>Applying a modify decision to a chunk\<close>

text \<open>
  The body of the \<^verbatim>\<open>modify\<close> branch of \<^verbatim>\<open>extractChunksFromActiveNote\<close>: the assignments
  to \<^verbatim>\<open>existingChunk\<close> in their order, each as an update of the record. \<open>modified\<close> is
  \<^verbatim>\<open>decision.modified_content\<close>, which the branch has tested; the clock is read at \<open>t\<close>
  for the due time and at \<open>t + 1\<close> inside \<^verbatim>\<open>computeChunkScore\<close>.
\<close>

definition applyModify ::
  "env \<Rightarrow> nat \<Rightarrow> string \<Rightarrow> updateLevel option \<Rightarrow> Chunk \<Rightarrow> Chunk" where
  "applyModify e t modified level existingChunk =
     (let c1 = existingChunk\<lparr>content := trim modified\<rparr>;
          updateLevel = (case level of None \<Rightarrow> Moderate | Some l \<Rightarrow> l);
          familiarityRetention =
            (if updateLevel = Minor then 0.9 else if updateLevel = Moderate then 0.7 else 0.4);
          c2 = c1\<lparr>familiarScore := max 0 (familiarScore c1 * familiarityRetention)\<rparr>;
          c3 = (if updateLevel = Minor then c2\<lparr>sm2Ef := max 1.3 (sm2Ef c2 - 0.1)\<rparr>
                else if updateLevel = Moderate
                then c2\<lparr>sm2Ef := max 1.3 (sm2Ef c2 - 0.3),
                        sm2Repetitions := max 0 (sm2Repetitions c2 - 1)\<rparr>
                else c2\<lparr>sm2Ef := max 1.3 (sm2Ef c2 * 0.7), sm2Repetitions := 0\<rparr>);
          c4 = (if sm2Repetitions c3 = 0
                then (let importanceMultiplier = getImportanceMultiplier e (importanceLevel c3);
                          initialIntervalDays = 1
                      in c3\<lparr>sm2IntervalDays :=
                              max 1 (Math_round (initialIntervalDays * importanceMultiplier))\<rparr>)
                else c3\<lparr>sm2IntervalDays := max 1 (Math_round (sm2IntervalDays c3 * 0.5))\<rparr>);
          c5 = c4\<lparr>dueAt := Date_now e t + sm2IntervalDays c4 * 24 * 60 * 60 * 1000\<rparr>
      in c5\<lparr>chunkScore := Some (computeChunkScore c5 (Date_now e (t + 1)))\<rparr>)"

subsection \<open>The two passes of an incremental extraction\<close>

text \<open>
  \<^verbatim>\<open>existingChunks\<close> is an array of the chunk objects of the note, taken before the loop;
  the loop changes these objects in place, so a change is seen in the map as long as
  the object is still stored there. Each object is stored under one key, and no code
  of the loop changes an id, so the array is modelled by the pairs of key and id. A
  decision is matched against the ids by \<^verbatim>\<open>find\<close>; \<^verbatim>\<open>delete\<close> removes the key
  \<^verbatim>\<open>decision.id\<close> from the map; \<^verbatim>\<open>modify\<close> changes the object that was found, stored or
  not.
\<close>

record counts =
  created :: nat
  updated :: nat
  deleted :: nat

text \<open>\<^verbatim>\<open>let created = 0; let updated = 0; let deleted = 0;\<close>\<close>

definition noCounts :: counts where
  "noCounts = \<lparr>created = 0, updated = 0, deleted = 0\<rparr>"

definition existingRefs :: "string \<Rightarrow> manager \<Rightarrow> (string \<times> string) list" where
  "existingRefs p s =
     map (\<lambda>(k, chunk). (k, id_chunk chunk))
       (filter (\<lambda>(k, chunk). notePath chunk = p) (chunks s))"

definition applyDecision ::
  "env \<Rightarrow> (string \<times> string) list \<Rightarrow> manager \<times> counts \<Rightarrow> IncrementalChunkDecision
     \<Rightarrow> manager \<times> counts" where
  "applyDecision e refs sc decision =
     (let s = fst sc; n = snd sc in
      case find (\<lambda>(k, i). i = id_decision decision) refs of
        None \<Rightarrow> (s, n)
      | Some (k, i) \<Rightarrow>
          if action decision = Delete
          then (s\<lparr>chunks := AList.delete (id_decision decision) (chunks s)\<rparr>,
                n\<lparr>deleted := deleted n + 1\<rparr>)
          else if action decision = Modify
                  \<and> modified_content decision \<noteq> None \<and> modified_content decision \<noteq> Some ''''
          then (case (map_of (chunks s) k, modified_content decision) of
                  (Some existingChunk, Some modified) \<Rightarrow>
                    (s\<lparr>chunks :=
                          AList.update k
                            (applyModify e (clock s) modified (update_level decision) existingChunk)
                            (chunks s),
                        clock := clock s + 2\<rparr>,
                     n\<lparr>updated := updated n + 1\<rparr>)
                | _ \<Rightarrow> (s\<lparr>clock := clock s + 2\<rparr>, n\<lparr>updated := updated n + 1\<rparr>))
          else (s, n))"

definition addNewChunk :: "env \<Rightarrow> string \<Rightarrow> manager \<times> counts \<Rightarrow> LLMChunk \<Rightarrow> manager \<times> counts" where
  "addNewChunk e p sc llmChunk =
     (let s = fst sc; n = snd sc in
      case content_llm llmChunk of
        None \<Rightarrow> (s, n)
      | Some txt \<Rightarrow>
          if txt = '''' \<or> trim txt = '''' then (s, n)
          else (let newChunk = createNewChunk e (clock s) (draws s) txt p
                in ((addChunk newChunk s)\<lparr>clock := clock s + 2, draws := draws s + 1\<rparr>,
                    n\<lparr>created := created n + 1\<rparr>)))"


text \<open>
  The two \<^verbatim>\<open>for\<close> statements. What is thrown while an element is gone through ends the
  statement: the result is the message of the error, if there is one, with the state
  as the elements before it have left it. An element that is \<^verbatim>\<open>null\<close> throws where its
  first property is read: \<^verbatim>\<open>decision.id\<close> in the test of \<^verbatim>\<open>find\<close>, which is made once the
  note has a chunk, and \<^verbatim>\<open>llmChunk.content\<close>. A content that is no string throws where
  it is trimmed, which for a decision is in the \<^verbatim>\<open>modify\<close> branch, before the first
  assignment to the chunk.
\<close>

fun applyDecisions ::
  "env \<Rightarrow> (string \<times> string) list \<Rightarrow> IncrementalChunkDecision element list
     \<Rightarrow> manager \<times> counts \<Rightarrow> string option \<times> manager \<times> counts" where
  "applyDecisions e refs [] sc = (None, sc)"
| "applyDecisions e refs (NullElement # ds) sc =
     (if refs = [] then applyDecisions e refs ds sc
      else (Some (nullPropertyMessage e ''id''), sc))"
| "applyDecisions e refs (OtherElement # ds) sc = applyDecisions e refs ds sc"
| "applyDecisions e refs (NonStringContent decision # ds) sc =
     (if find (\<lambda>(k, i). i = id_decision decision) refs \<noteq> None \<and> action decision = Modify
      then (Some (notFunctionMessage e ''decision.modified_content.trim''), sc)
      else applyDecisions e refs ds
             (applyDecision e refs sc (decision\<lparr>modified_content := None\<rparr>)))"
| "applyDecisions e refs (TypedElement decision # ds) sc =
     applyDecisions e refs ds (applyDecision e refs sc decision)"

fun addNewChunks ::
  "env \<Rightarrow> string \<Rightarrow> LLMChunk element list \<Rightarrow> manager \<times> counts
     \<Rightarrow> string option \<times> manager \<times> counts" where
  "addNewChunks e p [] sc = (None, sc)"
| "addNewChunks e p (NullElement # cs) sc = (Some (nullPropertyMessage e ''content''), sc)"
| "addNewChunks e p (OtherElement # cs) sc = addNewChunks e p cs sc"
| "addNewChunks e p (NonStringContent llmChunk # cs) sc =
     (Some (notFunctionMessage e ''llmChunk.content.trim''), sc)"
| "addNewChunks e p (TypedElement llmChunk # cs) sc =
     addNewChunks e p cs (addNewChunk e p sc llmChunk)"

subsection \<open>ChunkManager.extractChunksFromActiveNote\<close>

text \<open>
  What the function reads of the application: the active file, if there is one, the
  content of a file of the vault, and the settings of the plugin.
\<close>

record TFile =
  path :: string
  basename :: string
  name_file :: string

record MemoAISettings =
  llmApiKey :: string
  llmApiBase :: string
  llmModel :: string
  llmTimeout :: real

record app =
  activeFile :: "TFile option"
  vault_read :: "string \<Rightarrow> string"
  settings :: MemoAISettings

definition toExisting :: "Chunk \<Rightarrow> ExistingChunk" where
  "toExisting c =
     \<lparr>id_existing = id_chunk c, content_existing = content c,
      importance_level = importanceLevel c, needs_review = needsReview c\<rparr>"

text \<open>
  The object that the manager hands to \<^verbatim>\<open>new LLMService\<close>: the key, the address, the
  model and the time limit of the settings, and no transport.
\<close>

definition serviceConfig :: "MemoAISettings \<Rightarrow> LLMConfig" where
  "serviceConfig st =
     \<lparr>apiKey = orElse (Some (llmApiKey st)) '''',
      apiBase = Some (orElse (Some (llmApiBase st)) ''https://api.openai.com/v1''),
      model = Some (orElse (Some (llmModel st)) ''gpt-3.5-turbo''),
      timeout = Some ((if llmTimeout st \<noteq> 0 then llmTimeout st else 60) * 1000),
      requestUrl = None\<rparr>"

text \<open>
  \<open>extractWithConfig\<close> is the \<^verbatim>\<open>try\<close> statement of the function, for a service made from
  the configuration \<open>config\<close>. Its one \<^verbatim>\<open>try\<close> block holds the call of the service and the
  two \<^verbatim>\<open>for\<close> statements; whatever is thrown in it, by the call (\<open>Inl\<close>) or while an element
  is gone through, ends it: the \<^verbatim>\<open>catch\<close> block shows the message of the error and
  returns, with the chunks as they are at that moment and without saving them. Reading
  the note and saving the chunks are taken to succeed.
\<close>

definition extractWithConfig ::
  "env \<Rightarrow> LLMConfig \<Rightarrow> TFile \<Rightarrow> string \<Rightarrow> bool \<Rightarrow> manager \<Rightarrow> manager" where
  "extractWithConfig e config file noteText incremental s =
     (let s0 = notify ExtractingChunks s;
          existingChunks = (if incremental then getChunksByNotePath (path file) s0 else [])
      in if existingChunks = []
         then (case extractChunks e config (basename file) noteText of
                 Inl m \<Rightarrow> notify (ExtractionFailed m) s0
               | Inr llmChunks \<Rightarrow>
                   (case addNewChunks e (path file) llmChunks (s0, noCounts) of
                      (Some m, sc) \<Rightarrow> notify (ExtractionFailed m) (fst sc)
                    | (None, sc) \<Rightarrow>
                        (let s1 = saveChunks (fst sc)
                         in if created (snd sc) > 0
                            then notify (ExtractedChunks (created (snd sc)) (name_file file)) s1
                            else notify NoChunksExtracted s1)))
         else (case extractChunksIncremental e config (basename file) noteText
                      (map toExisting existingChunks) of
                 Inl m \<Rightarrow> notify (ExtractionFailed m) s0
               | Inr result \<Rightarrow>
                   (case applyDecisions e (existingRefs (path file) s0)
                           (existing_chunks result) (s0, noCounts) of
                      (Some m, sc) \<Rightarrow> notify (ExtractionFailed m) (fst sc)
                    | (None, sc1) \<Rightarrow>
                        (case addNewChunks e (path file) (new_chunks result) sc1 of
                           (Some m, sc) \<Rightarrow> notify (ExtractionFailed m) (fst sc)
                         | (None, sc2) \<Rightarrow>
                             (let s1 = saveChunks (fst sc2)
                              in notify (ExtractedSummary (created (snd sc2)) (updated (snd sc2))
                                           (deleted (snd sc2))) s1)))))"

text \<open>
  The function itself: the two tests before the \<^verbatim>\<open>try\<close> statement, and the statement
  with the service that the manager builds.
\<close>

definition extractChunksFromActiveNote :: "env \<Rightarrow> app \<Rightarrow> bool \<Rightarrow> manager \<Rightarrow> manager" where
  "extractChunksFromActiveNote e a incremental s =
     (case activeFile a of
        None \<Rightarrow> notify NoActiveNote s
      | Some file \<Rightarrow>
          (let noteText = vault_read a (path file) in
           if llmApiKey (settings a) = '''' then notify ApiKeyNotConfigured s
           else extractWithConfig e (serviceConfig (settings a)) file noteText incremental s))"

subsection \<open>ChunkManager.updateChunk\<close>

text \<open>
  \<^verbatim>\<open>Partial<Chunk>\<close>: every field may be absent (\<open>None\<close>). \<^verbatim>\<open>lastReviewedAt\<close> may be
  given as \<^verbatim>\<open>null\<close> and \<^verbatim>\<open>chunkScore\<close>, optional in \<^verbatim>\<open>Chunk\<close> itself, as
  \<^verbatim>\<open>undefined\<close>: these are \<open>Some None\<close>. \<^verbatim>\<open>Object.assign\<close> copies the fields that are
  there.
\<close>

record ChunkUpdates =
  id_upd :: "string option"
  notePath_upd :: "string option"
  content_upd :: "string option"
  chunkType_upd :: "ChunkType option"
  importanceLevel_upd :: "importance option"
  needsReview_upd :: "bool option"
  sm2Ef_upd :: "real option"
  sm2Repetitions_upd :: "real option"
  sm2IntervalDays_upd :: "real option"
  familiarScore_upd :: "real option"
  dueAt_upd :: "real option"
  createdAt_upd :: "real option"
  lastReviewedAt_upd :: "real option option"
  chunkScore_upd :: "real option option"

definition assignField :: "'a option \<Rightarrow> 'a \<Rightarrow> 'a" where
  "assignField new old = (case new of None \<Rightarrow> old | Some v \<Rightarrow> v)"

definition Object_assign :: "Chunk \<Rightarrow> ChunkUpdates \<Rightarrow> Chunk" where
  "Object_assign chunk updates =
     \<lparr>id_chunk = assignField (id_upd updates) (id_chunk chunk),
      notePath = assignField (notePath_upd updates) (notePath chunk),
      content = assignField (content_upd updates) (content chunk),
      chunkType = assignField (chunkType_upd updates) (chunkType chunk),
      importanceLevel = assignField (importanceLevel_upd updates) (importanceLevel chunk),
      needsReview = assignField (needsReview_upd updates) (needsReview chunk),
      sm2Ef = assignField (sm2Ef_upd updates) (sm2Ef chunk),
      sm2Repetitions = assignField (sm2Repetitions_upd updates) (sm2Repetitions chunk),
      sm2IntervalDays = assignField (sm2IntervalDays_upd updates) (sm2IntervalDays chunk),
      familiarScore = assignField (familiarScore_upd updates) (familiarScore chunk),
      dueAt = assignField (dueAt_upd updates) (dueAt chunk),
      createdAt = assignField (createdAt_upd updates) (createdAt chunk),
      lastReviewedAt = assignField (lastReviewedAt_upd updates) (lastReviewedAt chunk),
      chunkScore = assignField (chunkScore_upd updates) (chunkScore chunk)\<rparr>"

text \<open>\<^verbatim>\<open>updates.f !== undefined && updates.f !== chunk.f\<close>\<close>

definition changed :: "'a option \<Rightarrow> 'a \<Rightarrow> bool" where
  "changed new old = (case new of None \<Rightarrow> False | Some v \<Rightarrow> v \<noteq> old)"

definition updateChunk :: "env \<Rightarrow> string \<Rightarrow> ChunkUpdates \<Rightarrow> manager \<Rightarrow> manager" where
  "updateChunk e cid updates s =
     (case map_of (chunks s) cid of
        None \<Rightarrow> s
      | Some chunk \<Rightarrow>
          (let importanceChanged = changed (importanceLevel_upd updates) (importanceLevel chunk);
               familiarityChanged = changed (familiarScore_upd updates) (familiarScore chunk);
               dueAtChanged = changed (dueAt_upd updates) (dueAt chunk);
               affectsScore = (importanceChanged \<or> familiarityChanged \<or> dueAtChanged);
               chunkScoreExplicitlySet =
                 (case chunkScore_upd updates of Some (Some v) \<Rightarrow> True | _ \<Rightarrow> False);
               assigned = Object_assign chunk updates
           in if affectsScore \<and> \<not> chunkScoreExplicitlySet
              then saveChunks
                     (s\<lparr>chunks :=
                          AList.update cid
                            (assigned\<lparr>chunkScore :=
                               Some (computeChunkScore assigned (Date_now e (clock s)))\<rparr>)
                            (chunks s),
                        clock := clock s + 1\<rparr>)
              else saveChunks (s\<lparr>chunks := AList.update cid assigned (chunks s)\<rparr>)))"

subsection \<open>ChunkManager.deleteChunk\<close>

text \<open>
  The statements of \<^verbatim>\<open>deleteChunk\<close> in their order; \<open>deleteChunk_steps\<close> lists the state
  after each of the three, \<open>deleteChunk\<close> is the state after the last.
\<close>

definition deleteChunk_steps :: "string \<Rightarrow> manager \<Rightarrow> manager list" where
  "deleteChunk_steps cid s =
     (let s1 = s\<lparr>chunks := AList.delete cid (chunks s)\<rparr>;
          s2 = saveChunks s1;
          s3 = (case pushManager s2 of
                  None \<Rightarrow> s2
                | Some pm \<Rightarrow> s2\<lparr>pushManager := Some (deletePushesForChunk cid pm)\<rparr>)
      in [s1, s2, s3])"

definition deleteChunk :: "string \<Rightarrow> manager \<Rightarrow> manager" where
  "deleteChunk cid s = last (deleteChunk_steps cid s)"

text \<open>The pushes of a state that are bound to a chunk, and the messages of such pushes.\<close>

definition pushesOf :: "string \<Rightarrow> manager \<Rightarrow> (string \<times> StoredPush) list" where
  "pushesOf cid s =
     (case pushManager s of
        None \<Rightarrow> []
      | Some pm \<Rightarrow> filter (\<lambda>(k, p). chunkId p = cid) (pushes pm))"

definition messagesOf :: "string list \<Rightarrow> manager \<Rightarrow> StoredPushMessage list" where
  "messagesOf pids s =
     (case pushManager s of
        None \<Rightarrow> []
      | Some pm \<Rightarrow> filter (\<lambda>m. pushId m \<in> set pids) (pushMessages pm))"

subsection \<open>The invariant of the content\<close>

text \<open>
  In the words of the specification: the content of every stored chunk is non-empty
  after trimming.
\<close>

definition contentful :: "manager \<Rightarrow> bool" where
  "contentful s = (\<forall>(k, c) \<in> set (chunks s). trim (content c) \<noteq> '''')"


section \<open>Sample data\<close>

text \<open>
  A small environment and state on which the theorems below are instantiated. The
  multipliers of \<open>sampleEnv\<close> are sample values, not those of the plugin.
\<close>

definition sampleChunk :: Chunk where
  "sampleChunk =
     \<lparr>id_chunk = ''n.md-1-abc'', notePath = ''n.md'', content = ''old text'',
      chunkType = Knowledge, importanceLevel = High, needsReview = True,
      sm2Ef = 2.5, sm2Repetitions = 3, sm2IntervalDays = 10, familiarScore = 0.5,
      dueAt = 86400000, createdAt = 1000, lastReviewedAt = Some 2000,
      chunkScore = Some 3\<rparr>"

definition sampleResponse :: RequestUrlResponse where
  "sampleResponse =
     \<lparr>status = 503, json = JsonOther, text_response = ''Service Unavailable''\<rparr>"


definition sampleEnv :: env where
  "sampleEnv =
     \<lparr>Date_now = (\<lambda>n. 1000000 + real n),
      randomSuffix = (\<lambda>n. ''k3x9q0zrt''),
      numberToString = (\<lambda>x. ''1000000''),
      getImportanceMultiplier = (\<lambda>level. case level of Low \<Rightarrow> 1 / 2 | Medium \<Rightarrow> 1 | High \<Rightarrow> 12 / 5),
      JSON_parse_chunks = (\<lambda>c. Inl ''Unexpected token''),
      JSON_parse_incremental = (\<lambda>c. Inl ''Unexpected token''),
      JSON_parse_prompt = (\<lambda>c. Inl ''Unexpected token''),
      nullPropertyMessage = (\<lambda>p. ''Cannot read properties of null''),
      notFunctionMessage = (\<lambda>f. f @ '' is not a function''),
      StringToNumber = (\<lambda>s. NaN),
      NumberToString = (\<lambda>n. ''NaN'')\<rparr>"

definition samplePushes :: PushManager where
  "samplePushes =
     \<lparr>pushes = [(''p1'', \<lparr>id_push = ''p1'', chunkId = ''n.md-1-abc'', state = Active\<rparr>),
                (''p2'', \<lparr>id_push = ''p2'', chunkId = ''other'', state = Pending\<rparr>)],
      pushMessages = [\<lparr>id_message = ''m1'', pushId = ''p1'', content_message = ''What is it?''\<rparr>,
                      \<lparr>id_message = ''m2'', pushId = ''p2'', content_message = ''And this?''\<rparr>]\<rparr>"

definition sampleManager :: manager where
  "sampleManager =
     \<lparr>chunks = [(''n.md-1-abc'', sampleChunk)], persisted = [(''n.md-1-abc'', sampleChunk)],
      notices = [], clock = 0, draws = 0, pushManager = Some samplePushes\<rparr>"

definition sampleDecision :: "string \<Rightarrow> updateLevel \<Rightarrow> IncrementalChunkDecision" where
  "sampleDecision txt level =
     \<lparr>id_decision = ''n.md-1-abc'', action = Modify, modified_content = Some txt,
      update_level = Some level\<rparr>"

definition noUpdates :: ChunkUpdates where
  "noUpdates =
     \<lparr>id_upd = None, notePath_upd = None, content_upd = None, chunkType_upd = None,
      importanceLevel_upd = None, needsReview_upd = None, sm2Ef_upd = None,
      sm2Repetitions_upd = None, sm2IntervalDays_upd = None, familiarScore_upd = None,
      dueAt_upd = None, createdAt_upd = None, lastReviewedAt_upd = None,
      chunkScore_upd = None\<rparr>"

definition sampleFile :: TFile where
  "sampleFile = \<lparr>path = ''n.md'', basename = ''n'', name_file = ''n.md''\<rparr>"

definition sampleApp :: app where
  "sampleApp =
     \<lparr>activeFile = Some sampleFile,
      vault_read = (\<lambda>p. ''Some note text.''),
      settings = \<lparr>llmApiKey = ''sk-test'', llmApiBase = ''https://api.openai.com/v1/'',
                  llmModel = '''', llmTimeout = 0\<rparr>\<rparr>"

text \<open>
  An answer of the service with status 200 and a content, and a configuration whose
  transport gives this answer; in the environment \<open>gradeEnv g\<close> the content parses to a
  tutoring reply whose evaluation has the grade \<open>g\<close>.
\<close>

definition okResponse :: RequestUrlResponse where
  "okResponse =
     \<lparr>status = 200,
      json = JsonObject \<lparr>error_message = None, message = None, choice = Some (Some ''{}'')\<rparr>,
      text_response = ''''\<rparr>"

definition gradeReply :: "jsval \<Rightarrow> JsonPromptResult" where
  "gradeReply g =
     \<lparr>question_json = JUndefined, response_json = JStr '' Well done. '',
      should_end = JBool True,
      evaluation_json =
        Some \<lparr>grade_json = g, recommendation_json = JStr ''Review again tomorrow.'',
              confidence_json = JUndefined\<rparr>\<rparr>"

definition gradeEnv :: "jsval \<Rightarrow> env" where
  "gradeEnv g = sampleEnv\<lparr>JSON_parse_prompt := (\<lambda>c. Inr (PromptValue (gradeReply g)))\<rparr>"

definition sampleConfig :: LLMConfig where
  "sampleConfig =
     \<lparr>apiKey = ''sk-test'', apiBase = None, model = None, timeout = None,
      requestUrl = Some (\<lambda>param. Inr okResponse)\<rparr>"

definition sampleParams :: PushResponseParams where
  "sampleParams =
     \<lparr>chunkContent = ''old text'', familiarScore_params = 0.5, language = Some En,
      history = [], forceEvaluate = Some True\<rparr>"

text \<open>
  A configuration whose transport answers with the status 503, and an environment in
  which the content of a reply parses to two decisions: to delete the sample chunk, and
  \<^verbatim>\<open>null\<close>.
\<close>

definition failingConfig :: LLMConfig where
  "failingConfig = sampleConfig\<lparr>requestUrl := Some (\<lambda>param. Inr sampleResponse)\<rparr>"

definition nullElementEnv :: env where
  "nullElementEnv =
     sampleEnv\<lparr>JSON_parse_incremental :=
       (\<lambda>c. Inr (IncrementalValue
                   (IsArray [TypedElement \<lparr>id_decision = ''n.md-1-abc'', action = Delete,
                                           modified_content = None, update_level = None\<rparr>,
                             NullElement])
                   (IsArray [])))\<rparr>"

section \<open>Properties of the priority score\<close>

lemma scaled_at_top: "filterlim (\<lambda>d::real. d / 86400000) at_top at_top"
proof -
  have "filterlim (\<lambda>d::real. (1 / 86400000) * d) at_top at_top"
    by (rule filterlim_tendsto_pos_mult_at_top [OF tendsto_const _ filterlim_ident]) simp
  then show ?thesis by simp
qed

lemma scaled_at_bot: "filterlim (\<lambda>d::real. d / 86400000) at_bot at_bot"
proof -
  have "filterlim (\<lambda>d::real. - (- d / 86400000)) at_top at_top"
    using scaled_at_top by simp
  then have "filterlim (\<lambda>d::real. - d / 86400000) at_bot at_top"
    by (simp only: filterlim_uminus_at_bot)
  then show ?thesis
    by (simp only: filterlim_at_bot_mirror)
qed

lemma exp_neg_at_top: "((\<lambda>d::real. exp (- d / 86400000)) \<longlongrightarrow> 0) at_top"
proof -
  have "filterlim (\<lambda>d::real. - (d / 86400000)) at_bot at_top"
    using scaled_at_top by (simp add: filterlim_uminus_at_bot)
  then show ?thesis
    using filterlim_compose [OF exp_at_bot] by simp
qed

lemma exp_neg_at_bot: "filterlim (\<lambda>d::real. exp (- d / 86400000)) at_top at_bot"
proof -
  have "filterlim (\<lambda>d::real. - (d / 86400000)) at_top at_bot"
    using scaled_at_bot by (simp add: filterlim_uminus_at_top)
  then show ?thesis
    using filterlim_compose [OF exp_at_top] by simp
qed

lemma logistic_at_top:
  "((\<lambda>d::real. 4 / (1 + exp (- d / 86400000))) \<longlongrightarrow> 4) at_top"
proof -
  have "((\<lambda>d::real. 4 / (1 + exp (- d / 86400000))) \<longlongrightarrow> 4 / (1 + 0)) at_top"
    by (intro tendsto_intros exp_neg_at_top) simp
  then show ?thesis by simp
qed

lemma logistic_at_bot:
  "((\<lambda>d::real. 4 / (1 + exp (- d / 86400000))) \<longlongrightarrow> 0) at_bot"
proof -
  have "filterlim (\<lambda>d::real. 1 + exp (- d / 86400000)) at_top at_bot"
    by (rule filterlim_tendsto_add_at_top [OF tendsto_const exp_neg_at_bot])
  then show ?thesis
    by (rule real_tendsto_divide_at_top [OF tendsto_const])
qed

lemma dueBoost_at_top:
  assumes "\<forall>x. due x \<noteq> 0" and "filterlim (\<lambda>x. now x - due x) at_top F"
  shows "((\<lambda>x. dueBoost (due x) (now x)) \<longlongrightarrow> 4) F"
proof -
  have "((\<lambda>x. 4 / (1 + exp (- (now x - due x) / 86400000))) \<longlongrightarrow> 4) F"
    by (rule filterlim_compose [OF logistic_at_top assms(2)])
  then show ?thesis
    using assms(1) by (simp add: dueBoost_def)
qed

lemma dueBoost_at_bot:
  assumes "\<forall>x. due x \<noteq> 0" and "filterlim (\<lambda>x. now x - due x) at_bot F"
  shows "((\<lambda>x. dueBoost (due x) (now x)) \<longlongrightarrow> 0) F"
proof -
  have "((\<lambda>x. 4 / (1 + exp (- (now x - due x) / 86400000))) \<longlongrightarrow> 0) F"
    by (rule filterlim_compose [OF logistic_at_bot assms(2)])
  then show ?thesis
    using assms(1) by (simp add: dueBoost_def)
qed

lemma computeChunkScore_sum:
  "computeChunkScore chunk now =
     importanceWeight (importanceLevel chunk) + (1 - familiarScore chunk)
       + dueBoost (dueAt chunk) now"
  by (cases "importanceLevel chunk")
     (simp_all add: computeChunkScore_def importanceWeight_def dueBoost_def Let_def)

text \<open>
  C1. The score of a chunk at time \<open>now\<close> is the importance weight (2 for high, 1 for
  medium, 0 for low) plus one minus the familiarity plus the due boost. The due boost
  is 0 for a chunk without due time (the source tests the truth value of the number, so
  this is the due time 0). For a due time that is there, the boost is 2 when \<open>now\<close> is the
  due time; and along any family of due times and times \<open>now\<close>, the boost tends to 4
  when \<open>now - dueAt\<close> grows without bound and to 0 when it falls without bound.
\<close>

theorem C1_computeChunkScore:
  "computeChunkScore chunk now =
       importanceWeight (importanceLevel chunk) + (1 - familiarScore chunk)
         + dueBoost (dueAt chunk) now
   \<and> importanceWeight High = 2 \<and> importanceWeight Medium = 1 \<and> importanceWeight Low = 0
   \<and> dueBoost 0 now = 0
   \<and> (due \<noteq> 0 \<longrightarrow> dueBoost due due = 2)
   \<and> ((\<forall>x. dues x \<noteq> 0) \<and> filterlim (\<lambda>x. nows x - dues x) at_top F
        \<longrightarrow> ((\<lambda>x. dueBoost (dues x) (nows x)) \<longlongrightarrow> 4) F)
   \<and> ((\<forall>x. dues x \<noteq> 0) \<and> filterlim (\<lambda>x. nows x - dues x) at_bot F
        \<longrightarrow> ((\<lambda>x. dueBoost (dues x) (nows x)) \<longlongrightarrow> 0) F)"
proof -
  have "due \<noteq> 0 \<longrightarrow> dueBoost due due = 2"
    by (simp add: dueBoost_def)
  moreover have "dueBoost 0 now = 0"
    by (simp add: dueBoost_def)
  moreover have "importanceWeight High = 2 \<and> importanceWeight Medium = 1
      \<and> importanceWeight Low = 0"
    by (simp add: importanceWeight_def)
  ultimately show ?thesis
    using computeChunkScore_sum [of chunk now] dueBoost_at_top [of dues nows F]
      dueBoost_at_bot [of dues nows F]
    by blast
qed

theorem C1_computeChunkScore_witness:
  "dueAt sampleChunk \<noteq> 0
   \<and> computeChunkScore sampleChunk 86400000 = 2 + (1 - 0.5) + 2
   \<and> dueBoost (dueAt sampleChunk) (dueAt sampleChunk) = 2
   \<and> ((\<lambda>d. dueBoost (dueAt sampleChunk) (dueAt sampleChunk + d)) \<longlongrightarrow> 4) at_top
   \<and> ((\<lambda>d. dueBoost (dueAt sampleChunk) (dueAt sampleChunk + d)) \<longlongrightarrow> 0) at_bot"
proof -
  have present: "dueAt sampleChunk \<noteq> 0"
    by (simp add: sampleChunk_def)
  have up: "filterlim (\<lambda>d. (dueAt sampleChunk + d) - dueAt sampleChunk) at_top at_top"
    and down: "filterlim (\<lambda>d. (dueAt sampleChunk + d) - dueAt sampleChunk) at_bot at_bot"
    by (simp_all add: filterlim_ident)
  note c1 = C1_computeChunkScore [of sampleChunk "dueAt sampleChunk" "dueAt sampleChunk"
      "\<lambda>d. dueAt sampleChunk" "\<lambda>d. dueAt sampleChunk + d"]
  have "computeChunkScore sampleChunk 86400000 = 2 + (1 - 0.5) + 2"
    using present c1 [of at_top] by (simp add: sampleChunk_def)
  moreover have "((\<lambda>d. dueBoost (dueAt sampleChunk) (dueAt sampleChunk + d)) \<longlongrightarrow> 4) at_top"
    using present up c1 [of at_top] by blast
  moreover have "((\<lambda>d. dueBoost (dueAt sampleChunk) (dueAt sampleChunk + d)) \<longlongrightarrow> 0) at_bot"
    using present down c1 [of at_bot] by blast
  ultimately show ?thesis
    using present c1 [of at_top] by blast
qed

section \<open>Properties of the merge of decisions\<close>

lemma effectiveLevel_cases:
  "l = None \<or> l = Some Minor \<or> l = Some Moderate \<or> l = Some Major"
  by (cases l) (auto intro: updateLevel.exhaust)

lemma applyModify_frame:
  "id_chunk (applyModify e t m l c) = id_chunk c
   \<and> notePath (applyModify e t m l c) = notePath c
   \<and> createdAt (applyModify e t m l c) = createdAt c
   \<and> lastReviewedAt (applyModify e t m l c) = lastReviewedAt c
   \<and> importanceLevel (applyModify e t m l c) = importanceLevel c
   \<and> needsReview (applyModify e t m l c) = needsReview c
   \<and> chunkType (applyModify e t m l c) = chunkType c"
  using effectiveLevel_cases [of l]
  by (elim disjE) (simp_all add: applyModify_def Let_def)

lemma applyModify_major:
  "sm2Repetitions (applyModify e t m (Some Major) c) = 0
   \<and> sm2Ef (applyModify e t m (Some Major) c) = max 1.3 (0.7 * sm2Ef c)
   \<and> familiarScore (applyModify e t m (Some Major) c) = max 0 (0.4 * familiarScore c)
   \<and> sm2IntervalDays (applyModify e t m (Some Major) c) =
        max 1 (Math_round (1 * getImportanceMultiplier e (importanceLevel c)))
   \<and> dueAt (applyModify e t m (Some Major) c) =
        Date_now e t + sm2IntervalDays (applyModify e t m (Some Major) c) * 24 * 60 * 60 * 1000"
  by (simp add: applyModify_def Let_def mult.commute)

lemma applyModify_minor:
  "sm2Ef (applyModify e t m (Some Minor) c) = max 1.3 (sm2Ef c - 0.1)
   \<and> sm2Repetitions (applyModify e t m (Some Minor) c) = sm2Repetitions c"
  by (simp add: applyModify_def Let_def)

lemma applyModify_minor_bounds:
  "sm2Ef c - sm2Ef (applyModify e t m (Some Minor) c) \<le> 0.1
   \<and> 1.3 \<le> sm2Ef (applyModify e t m (Some Minor) c)"
proof -
  have "x - max 1.3 (x - 0.1) \<le> 0.1 \<and> 1.3 \<le> max 1.3 (x - 0.1)" for x :: real
    by (simp add: max_def)
  then show ?thesis
    using applyModify_minor [of e t m c] by simp
qed

lemma applyDecision_modify_found:
  assumes "find (\<lambda>(k, i). i = id_decision d) refs = Some (k, i)"
    and "map_of (chunks s) k = Some c"
    and "action d = Modify"
    and "modified_content d = Some m" and "m \<noteq> ''''"
  shows "map_of (chunks (fst (applyDecision e refs (s, n) d))) k
           = Some (applyModify e (clock s) m (update_level d) c)"
  using assms by (simp add: applyDecision_def update_conv')

lemma applyDecision_modify_cases:
  assumes "action d = Modify" and "map_of (chunks s) k = Some c"
  shows "map_of (chunks (fst (applyDecision e refs (s, n) d))) k = Some c
         \<or> (\<exists>m. modified_content d = Some m \<and> m \<noteq> ''''
               \<and> map_of (chunks (fst (applyDecision e refs (s, n) d))) k
                   = Some (applyModify e (clock s) m (update_level d) c))"
  using assms
  by (auto simp add: applyDecision_def update_conv' split: option.splits prod.splits)

lemma sample_found:
  "find (\<lambda>(k, i). i = id_decision (sampleDecision txt level))
     (existingRefs ''n.md'' sampleManager) = Some (''n.md-1-abc'', ''n.md-1-abc'')"
  by (simp add: sampleDecision_def existingRefs_def sampleManager_def sampleChunk_def)

lemma sample_stored: "map_of (chunks sampleManager) ''n.md-1-abc'' = Some sampleChunk"
  by (simp add: sampleManager_def)

text \<open>
  C2. A modify decision of level major that carries a content and is matched to a
  stored chunk of the note leaves this chunk with no repetitions, with the ease factor
  \<open>max 1.3 (0.7 * ef)\<close>, with the familiarity \<open>max 0 (0.4 * familiarScore)\<close>, with the
  initial interval \<open>max 1 (round (1 * importanceMultiplier))\<close> of its importance level,
  and due that many days after the reading of the clock.
\<close>

theorem C2_major_modify:
  assumes "find (\<lambda>(k, i). i = id_decision d) refs = Some (k, i)"
    and "map_of (chunks s) k = Some c"
    and "action d = Modify" and "update_level d = Some Major"
    and "modified_content d = Some m" and "m \<noteq> ''''"
  shows "\<exists>c'. map_of (chunks (fst (applyDecision e refs (s, n) d))) k = Some c'
           \<and> sm2Repetitions c' = 0
           \<and> sm2Ef c' = max 1.3 (0.7 * sm2Ef c)
           \<and> familiarScore c' = max 0 (0.4 * familiarScore c)
           \<and> sm2IntervalDays c' =
                max 1 (Math_round (1 * getImportanceMultiplier e (importanceLevel c)))
           \<and> dueAt c' = Date_now e (clock s) + sm2IntervalDays c' * 24 * 60 * 60 * 1000"
  using applyDecision_modify_found [OF assms(1,2,3,5,6), of e n]
    applyModify_major [of e "clock s" m c] assms(4)
  by simp

theorem C2_major_modify_witness:
  "\<exists>c'. map_of (chunks (fst (applyDecision sampleEnv (existingRefs ''n.md'' sampleManager)
                               (sampleManager, noCounts) (sampleDecision ''new text'' Major))))
           ''n.md-1-abc'' = Some c'
        \<and> sm2Repetitions c' = 0 \<and> sm2Ef c' = 1.75 \<and> familiarScore c' = 0.2
        \<and> sm2IntervalDays c' = 2 \<and> dueAt c' = 1000000 + 2 * 24 * 60 * 60 * 1000"
proof -
  have level: "Math_round (1 * getImportanceMultiplier sampleEnv (importanceLevel sampleChunk)) = 2"
    by (simp add: Math_round_def sampleEnv_def sampleChunk_def)
  have "action (sampleDecision ''new text'' Major) = Modify"
    and "update_level (sampleDecision ''new text'' Major) = Some Major"
    and "modified_content (sampleDecision ''new text'' Major) = Some ''new text''"
    and "''new text'' \<noteq> ''''"
    by (simp_all add: sampleDecision_def)
  from C2_major_modify [OF sample_found sample_stored this, of sampleEnv noCounts]
  obtain c' where stored: "map_of (chunks (fst (applyDecision sampleEnv
          (existingRefs ''n.md'' sampleManager) (sampleManager, noCounts)
          (sampleDecision ''new text'' Major)))) ''n.md-1-abc'' = Some c'"
    and reps: "sm2Repetitions c' = 0"
    and ef: "sm2Ef c' = max 1.3 (0.7 * sm2Ef sampleChunk)"
    and familiar: "familiarScore c' = max 0 (0.4 * familiarScore sampleChunk)"
    and days: "sm2IntervalDays c' =
        max 1 (Math_round (1 * getImportanceMultiplier sampleEnv (importanceLevel sampleChunk)))"
    and due: "dueAt c' =
        Date_now sampleEnv (clock sampleManager) + sm2IntervalDays c' * 24 * 60 * 60 * 1000"
    by blast
  have "sm2Ef c' = 1.75"
    using ef by (simp add: sampleChunk_def)
  moreover have "familiarScore c' = 0.2"
    using familiar by (simp add: sampleChunk_def)
  moreover have "sm2IntervalDays c' = 2"
    using days level by simp
  moreover have "dueAt c' = 1000000 + 2 * 24 * 60 * 60 * 1000"
    using due \<open>sm2IntervalDays c' = 2\<close> by (simp add: sampleEnv_def sampleManager_def)
  ultimately show ?thesis
    using stored reps by blast
qed

text \<open>
  C7. A modify decision of level minor lowers the ease factor of a stored chunk by at
  most 0.1 and leaves its repetitions as they were, whether or not the decision is
  applied to the chunk; where it is applied (it carries a content and is matched to
  the chunk) the new ease factor is \<open>max 1.3 (ef - 0.1)\<close>, so not below 1.3.
\<close>

theorem C7_minor_modify:
  assumes "action d = Modify" and "update_level d = Some Minor"
    and "map_of (chunks s) k = Some c"
  shows "\<exists>c'. map_of (chunks (fst (applyDecision e refs (s, n) d))) k = Some c'
           \<and> sm2Ef c - sm2Ef c' \<le> 0.1
           \<and> sm2Repetitions c' = sm2Repetitions c
           \<and> (find (\<lambda>(k, i). i = id_decision d) refs = Some (k, i)
                \<and> modified_content d = Some m \<and> m \<noteq> ''''
              \<longrightarrow> sm2Ef c' = max 1.3 (sm2Ef c - 0.1) \<and> 1.3 \<le> sm2Ef c')"
proof -
  let ?after = "map_of (chunks (fst (applyDecision e refs (s, n) d))) k"
  have applied: "?after = Some (applyModify e (clock s) m (Some Minor) c)"
    if "find (\<lambda>(k, i). i = id_decision d) refs = Some (k, i)
        \<and> modified_content d = Some m \<and> m \<noteq> ''''"
    using that applyDecision_modify_found [of d refs k i s c m e n] assms by simp
  from applyDecision_modify_cases [OF assms(1,3), of e refs n]
  consider (same) "?after = Some c"
    | (modified) m' where "?after = Some (applyModify e (clock s) m' (Some Minor) c)"
    using assms(2) by auto
  then show ?thesis
  proof cases
    case same
    then show ?thesis
      using applied applyModify_minor [of e "clock s" m c]
        applyModify_minor_bounds [of c e "clock s" m]
      by auto
  next
    case modified
    then show ?thesis
      using applied applyModify_minor [of e "clock s" m' c]
        applyModify_minor_bounds [of c e "clock s" m']
      by auto
  qed
qed

theorem C7_minor_modify_witness:
  "\<exists>c'. map_of (chunks (fst (applyDecision sampleEnv (existingRefs ''n.md'' sampleManager)
                               (sampleManager, noCounts) (sampleDecision ''new text'' Minor))))
           ''n.md-1-abc'' = Some c'
        \<and> sm2Ef c' = 2.4 \<and> sm2Repetitions c' = 3"
proof -
  have "action (sampleDecision ''new text'' Minor) = Modify"
    and "update_level (sampleDecision ''new text'' Minor) = Some Minor"
    by (simp_all add: sampleDecision_def)
  from C7_minor_modify [OF this sample_stored, of sampleEnv "existingRefs ''n.md'' sampleManager"
      noCounts "''n.md-1-abc''" "''new text''"]
  show ?thesis
    using sample_found [of "''new text''" Minor]
    by (auto simp add: sampleChunk_def sampleDecision_def)
qed

text \<open>
  C9. A modify decision leaves every stored chunk in the store and leaves its id, note
  path, creation time, time of the last review, importance level, review flag and type
  as they were: only the content, the familiarity, the three SM2 fields, the due time
  and the score can differ.
\<close>

theorem C9_modify_frame:
  assumes "action d = Modify" and "map_of (chunks s) k = Some c"
  shows "\<exists>c'. map_of (chunks (fst (applyDecision e refs (s, n) d))) k = Some c'
           \<and> id_chunk c' = id_chunk c \<and> notePath c' = notePath c
           \<and> createdAt c' = createdAt c \<and> lastReviewedAt c' = lastReviewedAt c
           \<and> importanceLevel c' = importanceLevel c \<and> needsReview c' = needsReview c
           \<and> chunkType c' = chunkType c"
  using applyDecision_modify_cases [OF assms, of e refs n] applyModify_frame
  by auto

theorem C9_modify_frame_witness:
  "\<exists>c'. map_of (chunks (fst (applyDecision sampleEnv (existingRefs ''n.md'' sampleManager)
                               (sampleManager, noCounts) (sampleDecision ''new text'' Moderate))))
           ''n.md-1-abc'' = Some c'
        \<and> id_chunk c' = ''n.md-1-abc'' \<and> notePath c' = ''n.md'' \<and> createdAt c' = 1000
        \<and> lastReviewedAt c' = Some 2000 \<and> importanceLevel c' = High \<and> needsReview c'
        \<and> chunkType c' = Knowledge"
proof -
  have "action (sampleDecision ''new text'' Moderate) = Modify"
    by (simp add: sampleDecision_def)
  from C9_modify_frame [OF this sample_stored, of sampleEnv "existingRefs ''n.md'' sampleManager"
      noCounts]
  show ?thesis
    by (simp add: sampleChunk_def)
qed

section \<open>Properties of updateChunk and deleteChunk\<close>

lemma updateChunk_stored:
  assumes "map_of (chunks s) cid = Some chunk"
  shows "map_of (chunks (updateChunk e cid u s)) cid =
     Some (if ((\<exists>v. importanceLevel_upd u = Some v \<and> v \<noteq> importanceLevel chunk)
               \<or> (\<exists>v. familiarScore_upd u = Some v \<and> v \<noteq> familiarScore chunk)
               \<or> (\<exists>v. dueAt_upd u = Some v \<and> v \<noteq> dueAt chunk))
              \<and> (\<forall>v. chunkScore_upd u \<noteq> Some (Some v))
           then (Object_assign chunk u)\<lparr>chunkScore :=
                   Some (computeChunkScore (Object_assign chunk u) (Date_now e (clock s)))\<rparr>
           else Object_assign chunk u)"
proof -
  define r where "r \<longleftrightarrow>
     ((\<exists>v. importanceLevel_upd u = Some v \<and> v \<noteq> importanceLevel chunk)
        \<or> (\<exists>v. familiarScore_upd u = Some v \<and> v \<noteq> familiarScore chunk)
        \<or> (\<exists>v. dueAt_upd u = Some v \<and> v \<noteq> dueAt chunk))
     \<and> (\<forall>v. chunkScore_upd u \<noteq> Some (Some v))"
  have cond: "((changed (importanceLevel_upd u) (importanceLevel chunk)
                \<or> changed (familiarScore_upd u) (familiarScore chunk)
                \<or> changed (dueAt_upd u) (dueAt chunk))
               \<and> \<not> (case chunkScore_upd u of Some (Some v) \<Rightarrow> True | _ \<Rightarrow> False)) = r"
    unfolding r_def changed_def by (auto split: option.splits)
  have "map_of (chunks (updateChunk e cid u s)) cid =
     Some (if r
           then (Object_assign chunk u)\<lparr>chunkScore :=
                   Some (computeChunkScore (Object_assign chunk u) (Date_now e (clock s)))\<rparr>
           else Object_assign chunk u)"
    unfolding updateChunk_def assms option.case Let_def cond
    by (cases r) (simp_all add: saveChunks_def update_conv')
  then show ?thesis
    unfolding r_def .
qed

lemma updateChunk_others:
  "k \<noteq> cid \<Longrightarrow> map_of (chunks (updateChunk e cid u s)) k = map_of (chunks s) k"
  by (simp add: updateChunk_def Let_def saveChunks_def update_conv' split: option.splits)

lemma Object_assign_fields:
  "id_chunk (Object_assign chunk u) = (case id_upd u of None \<Rightarrow> id_chunk chunk | Some v \<Rightarrow> v)"
  "notePath (Object_assign chunk u) = (case notePath_upd u of None \<Rightarrow> notePath chunk | Some v \<Rightarrow> v)"
  "content (Object_assign chunk u) = (case content_upd u of None \<Rightarrow> content chunk | Some v \<Rightarrow> v)"
  "chunkType (Object_assign chunk u) = (case chunkType_upd u of None \<Rightarrow> chunkType chunk | Some v \<Rightarrow> v)"
  "importanceLevel (Object_assign chunk u) =
     (case importanceLevel_upd u of None \<Rightarrow> importanceLevel chunk | Some v \<Rightarrow> v)"
  "needsReview (Object_assign chunk u) =
     (case needsReview_upd u of None \<Rightarrow> needsReview chunk | Some v \<Rightarrow> v)"
  "sm2Ef (Object_assign chunk u) = (case sm2Ef_upd u of None \<Rightarrow> sm2Ef chunk | Some v \<Rightarrow> v)"
  "sm2Repetitions (Object_assign chunk u) =
     (case sm2Repetitions_upd u of None \<Rightarrow> sm2Repetitions chunk | Some v \<Rightarrow> v)"
  "sm2IntervalDays (Object_assign chunk u) =
     (case sm2IntervalDays_upd u of None \<Rightarrow> sm2IntervalDays chunk | Some v \<Rightarrow> v)"
  "familiarScore (Object_assign chunk u) =
     (case familiarScore_upd u of None \<Rightarrow> familiarScore chunk | Some v \<Rightarrow> v)"
  "dueAt (Object_assign chunk u) = (case dueAt_upd u of None \<Rightarrow> dueAt chunk | Some v \<Rightarrow> v)"
  "createdAt (Object_assign chunk u) =
     (case createdAt_upd u of None \<Rightarrow> createdAt chunk | Some v \<Rightarrow> v)"
  "lastReviewedAt (Object_assign chunk u) =
     (case lastReviewedAt_upd u of None \<Rightarrow> lastReviewedAt chunk | Some v \<Rightarrow> v)"
  "chunkScore (Object_assign chunk u) =
     (case chunkScore_upd u of None \<Rightarrow> chunkScore chunk | Some v \<Rightarrow> v)"
  by (simp_all add: Object_assign_def assignField_def)

text \<open>
  C6. For a stored chunk, \<^verbatim>\<open>updateChunk\<close> sets each field that the update carries and
  leaves the others; the score is computed anew, from the chunk after the update,
  exactly when the update carries an importance level, a familiarity or a due time
  that differs from the chunk's and carries no score; otherwise the score is the one
  supplied, or the old one. No other chunk changes.
\<close>

theorem C6_updateChunk:
  assumes "map_of (chunks s) cid = Some chunk"
  shows "\<exists>c'. map_of (chunks (updateChunk e cid u s)) cid = Some c'
     \<and> id_chunk c' = (case id_upd u of None \<Rightarrow> id_chunk chunk | Some v \<Rightarrow> v)
     \<and> notePath c' = (case notePath_upd u of None \<Rightarrow> notePath chunk | Some v \<Rightarrow> v)
     \<and> content c' = (case content_upd u of None \<Rightarrow> content chunk | Some v \<Rightarrow> v)
     \<and> chunkType c' = (case chunkType_upd u of None \<Rightarrow> chunkType chunk | Some v \<Rightarrow> v)
     \<and> importanceLevel c' =
          (case importanceLevel_upd u of None \<Rightarrow> importanceLevel chunk | Some v \<Rightarrow> v)
     \<and> needsReview c' = (case needsReview_upd u of None \<Rightarrow> needsReview chunk | Some v \<Rightarrow> v)
     \<and> sm2Ef c' = (case sm2Ef_upd u of None \<Rightarrow> sm2Ef chunk | Some v \<Rightarrow> v)
     \<and> sm2Repetitions c' =
          (case sm2Repetitions_upd u of None \<Rightarrow> sm2Repetitions chunk | Some v \<Rightarrow> v)
     \<and> sm2IntervalDays c' =
          (case sm2IntervalDays_upd u of None \<Rightarrow> sm2IntervalDays chunk | Some v \<Rightarrow> v)
     \<and> familiarScore c' =
          (case familiarScore_upd u of None \<Rightarrow> familiarScore chunk | Some v \<Rightarrow> v)
     \<and> dueAt c' = (case dueAt_upd u of None \<Rightarrow> dueAt chunk | Some v \<Rightarrow> v)
     \<and> createdAt c' = (case createdAt_upd u of None \<Rightarrow> createdAt chunk | Some v \<Rightarrow> v)
     \<and> lastReviewedAt c' =
          (case lastReviewedAt_upd u of None \<Rightarrow> lastReviewedAt chunk | Some v \<Rightarrow> v)
     \<and> chunkScore c' =
          (if ((\<exists>v. importanceLevel_upd u = Some v \<and> v \<noteq> importanceLevel chunk)
               \<or> (\<exists>v. familiarScore_upd u = Some v \<and> v \<noteq> familiarScore chunk)
               \<or> (\<exists>v. dueAt_upd u = Some v \<and> v \<noteq> dueAt chunk))
              \<and> (\<forall>v. chunkScore_upd u \<noteq> Some (Some v))
           then Some (computeChunkScore (Object_assign chunk u) (Date_now e (clock s)))
           else (case chunkScore_upd u of None \<Rightarrow> chunkScore chunk | Some v \<Rightarrow> v))
     \<and> (\<forall>k. k \<noteq> cid \<longrightarrow> map_of (chunks (updateChunk e cid u s)) k = map_of (chunks s) k)"
proof -
  define r where "r \<longleftrightarrow>
     ((\<exists>v. importanceLevel_upd u = Some v \<and> v \<noteq> importanceLevel chunk)
        \<or> (\<exists>v. familiarScore_upd u = Some v \<and> v \<noteq> familiarScore chunk)
        \<or> (\<exists>v. dueAt_upd u = Some v \<and> v \<noteq> dueAt chunk))
     \<and> (\<forall>v. chunkScore_upd u \<noteq> Some (Some v))"
  note stored = updateChunk_stored [OF assms, of e u, folded r_def]
  show ?thesis
    unfolding r_def [symmetric]
    using stored updateChunk_others [of _ cid e u s]
    by (cases r) (simp_all add: Object_assign_fields)
qed

theorem C6_updateChunk_witness:
  "\<exists>c'. map_of (chunks (updateChunk sampleEnv ''n.md-1-abc''
                          (noUpdates\<lparr>importanceLevel_upd := Some Low\<rparr>) sampleManager))
            ''n.md-1-abc'' = Some c'
     \<and> importanceLevel c' = Low \<and> content c' = ''old text'' \<and> familiarScore c' = 0.5
     \<and> chunkScore c' =
          Some (computeChunkScore (sampleChunk\<lparr>importanceLevel := Low\<rparr>) 1000000)"
proof -
  let ?u = "noUpdates\<lparr>importanceLevel_upd := Some Low\<rparr>"
  have assigned: "Object_assign sampleChunk ?u = sampleChunk\<lparr>importanceLevel := Low\<rparr>"
    by (simp add: Object_assign_def assignField_def noUpdates_def sampleChunk_def)
  from C6_updateChunk [OF sample_stored, of sampleEnv ?u]
  obtain c' where "map_of (chunks (updateChunk sampleEnv ''n.md-1-abc'' ?u sampleManager))
            ''n.md-1-abc'' = Some c'"
    and "importanceLevel c' = Low" and "content c' = ''old text''"
    and "familiarScore c' = 0.5"
    and "chunkScore c' = Some (computeChunkScore (Object_assign sampleChunk ?u)
            (Date_now sampleEnv (clock sampleManager)))"
    by (auto simp add: noUpdates_def sampleChunk_def)
  then show ?thesis
    unfolding assigned by (auto simp add: sampleEnv_def sampleManager_def)
qed

lemma delete_absent: "map_of al k = None \<Longrightarrow> AList.delete k al = al"
  by (induction al) (auto split: if_splits)

text \<open>
  C8. For an id that is not a key of the store, \<^verbatim>\<open>updateChunk\<close> returns at once and
  changes nothing at all, and \<^verbatim>\<open>deleteChunk\<close> leaves the stored chunks as they were
  after each of its statements. Neither function has a statement that throws, and
  neither returns a value: the caller is told nothing.
\<close>

theorem C8_unknown_id:
  assumes "map_of (chunks s) cid = None"
  shows "updateChunk e cid u s = s
     \<and> chunks (deleteChunk cid s) = chunks s
     \<and> (\<forall>st \<in> set (deleteChunk_steps cid s). chunks st = chunks s)"
  using assms
  by (simp add: updateChunk_def deleteChunk_def deleteChunk_steps_def Let_def saveChunks_def
      delete_absent split: option.splits)

theorem C8_unknown_id_witness:
  "map_of (chunks sampleManager) ''unknown'' = None
   \<and> updateChunk sampleEnv ''unknown'' (noUpdates\<lparr>needsReview_upd := Some False\<rparr>) sampleManager
       = sampleManager
   \<and> chunks (deleteChunk ''unknown'' sampleManager) = chunks sampleManager"
proof -
  have absent: "map_of (chunks sampleManager) ''unknown'' = None"
    by (simp add: sampleManager_def)
  from C8_unknown_id [OF absent] absent show ?thesis
    by blast
qed


lemma deletePushesForChunk_pushes:
  "filter (\<lambda>(k, p). chunkId p = cid) (pushes (deletePushesForChunk cid pm)) = []"
  by (auto simp add: deletePushesForChunk_def Let_def filter_empty_conv)

lemma deletePushesForChunk_messages:
  "filter (\<lambda>m. pushId m \<in> set (map fst (filter (\<lambda>(k, p). chunkId p = cid) (pushes pm))))
     (pushMessages (deletePushesForChunk cid pm)) = []"
  by (auto simp add: deletePushesForChunk_def Let_def filter_empty_conv)

text \<open>
  The three statements of \<^verbatim>\<open>deleteChunk\<close>, for every state and id. The first removes the
  chunk and touches neither the saved chunks nor the pushes; the second saves the
  chunks and does not touch the pushes; at the end the chunk is not stored, no push is
  bound to it and no message belongs to a push that was bound to it.
\<close>

lemma deleteChunk_order:
  "chunks (deleteChunk_steps cid s ! 0) = AList.delete cid (chunks s)
   \<and> persisted (deleteChunk_steps cid s ! 0) = persisted s
   \<and> pushManager (deleteChunk_steps cid s ! 0) = pushManager s
   \<and> chunks (deleteChunk_steps cid s ! 1) = AList.delete cid (chunks s)
   \<and> persisted (deleteChunk_steps cid s ! 1) = AList.delete cid (chunks s)
   \<and> pushManager (deleteChunk_steps cid s ! 1) = pushManager s
   \<and> deleteChunk_steps cid s ! 2 = deleteChunk cid s
   \<and> chunks (deleteChunk cid s) = AList.delete cid (chunks s)
   \<and> persisted (deleteChunk cid s) = AList.delete cid (chunks s)
   \<and> map_of (chunks (deleteChunk cid s)) cid = None
   \<and> pushesOf cid (deleteChunk cid s) = []
   \<and> messagesOf (map fst (pushesOf cid s)) (deleteChunk cid s) = []"
proof (cases "pushManager s")
  case None
  then show ?thesis
    by (simp add: deleteChunk_def deleteChunk_steps_def Let_def saveChunks_def pushesOf_def
        messagesOf_def delete_conv')
next
  case (Some pm)
  then show ?thesis
    using deletePushesForChunk_pushes [of cid pm] deletePushesForChunk_messages [of cid pm]
    by (simp add: deleteChunk_def deleteChunk_steps_def Let_def saveChunks_def pushesOf_def
        messagesOf_def delete_conv')
qed

text \<open>
  C5. \<^verbatim>\<open>deleteChunk\<close> is called with the id of the sample chunk, to which the push \<open>p1\<close>
  with its message \<open>m1\<close> is bound. After the first statement the chunk is gone from the
  store while the push and its message are still there; after the second statement the
  saved chunks no longer hold the chunk either, and the push and its message are still
  there. Only the third statement removes them. So the pushes of the chunk are deleted
  after the chunk has been removed and the removal saved, not before.
\<close>

theorem C5_deleteChunk_removes_chunk_first:
  "map_of (chunks sampleManager) ''n.md-1-abc'' = Some sampleChunk
   \<and> map_of (chunks (deleteChunk_steps ''n.md-1-abc'' sampleManager ! 0)) ''n.md-1-abc'' = None
   \<and> map_of (persisted (deleteChunk_steps ''n.md-1-abc'' sampleManager ! 0)) ''n.md-1-abc''
       = Some sampleChunk
   \<and> pushesOf ''n.md-1-abc'' (deleteChunk_steps ''n.md-1-abc'' sampleManager ! 0)
       = [(''p1'', \<lparr>id_push = ''p1'', chunkId = ''n.md-1-abc'', state = Active\<rparr>)]
   \<and> messagesOf [''p1''] (deleteChunk_steps ''n.md-1-abc'' sampleManager ! 0)
       = [\<lparr>id_message = ''m1'', pushId = ''p1'', content_message = ''What is it?''\<rparr>]
   \<and> map_of (persisted (deleteChunk_steps ''n.md-1-abc'' sampleManager ! 1)) ''n.md-1-abc''
       = None
   \<and> pushesOf ''n.md-1-abc'' (deleteChunk_steps ''n.md-1-abc'' sampleManager ! 1)
       = [(''p1'', \<lparr>id_push = ''p1'', chunkId = ''n.md-1-abc'', state = Active\<rparr>)]
   \<and> messagesOf [''p1''] (deleteChunk_steps ''n.md-1-abc'' sampleManager ! 1)
       = [\<lparr>id_message = ''m1'', pushId = ''p1'', content_message = ''What is it?''\<rparr>]
   \<and> pushesOf ''n.md-1-abc'' (deleteChunk ''n.md-1-abc'' sampleManager) = []
   \<and> messagesOf [''p1''] (deleteChunk ''n.md-1-abc'' sampleManager) = []
   \<and> pushManager (deleteChunk ''n.md-1-abc'' sampleManager)
       = Some \<lparr>pushes = [(''p2'', \<lparr>id_push = ''p2'', chunkId = ''other'', state = Pending\<rparr>)],
               pushMessages =
                 [\<lparr>id_message = ''m2'', pushId = ''p2'', content_message = ''And this?''\<rparr>]\<rparr>"
  by (simp add: deleteChunk_def deleteChunk_steps_def Let_def saveChunks_def sampleManager_def
      pushesOf_def messagesOf_def samplePushes_def deletePushesForChunk_def)

section \<open>Properties of the extraction\<close>

lemma extract_key_absent:
  assumes "activeFile a = Some file" and "llmApiKey (settings a) = ''''"
  shows "extractChunksFromActiveNote e a incremental s
           = s\<lparr>notices := notices s @ [ApiKeyNotConfigured]\<rparr>"
  using assms by (simp add: extractChunksFromActiveNote_def notify_def)

lemma extract_call_failed:
  assumes "existing = (if incremental then getChunksByNotePath (path file) s else [])"
    and "existing = [] \<and> extractChunks e config (basename file) noteText = Inl m
         \<or> existing \<noteq> []
            \<and> extractChunksIncremental e config (basename file) noteText
                (map toExisting existing) = Inl m"
  shows "extractWithConfig e config file noteText incremental s
           = s\<lparr>notices := notices s @ [ExtractingChunks, ExtractionFailed m]\<rparr>"
proof -
  have same: "getChunksByNotePath p (notify n s) = getChunksByNotePath p s" for p n
    by (simp add: getChunksByNotePath_def getAllChunks_def notify_def)
  show ?thesis
  proof (cases "existing = []")
    case True
    with assms(2) have "extractChunks e config (basename file) noteText = Inl m"
      by simp
    with True show ?thesis
      unfolding extractWithConfig_def same Let_def assms(1) [symmetric]
      by (simp add: notify_def)
  next
    case False
    with assms(2) have "extractChunksIncremental e config (basename file) noteText
        (map toExisting existing) = Inl m"
      by simp
    with False show ?thesis
      unfolding extractWithConfig_def same Let_def assms(1) [symmetric]
      by (simp add: notify_def)
  qed
qed

text \<open>
  The service as the manager builds it has no transport: the call of the transport
  throws, and the \<^verbatim>\<open>catch\<close> block of the service throws on.
\<close>

lemma tryExtractChunks_no_transport:
  "requestUrl config = None \<Longrightarrow>
     tryExtractChunks e config t c
       = Inl (ErrorObject ''TypeError'' (notFunctionMessage e ''this.config.requestUrl''))"
  by (simp add: tryExtractChunks_def callRequestUrl_def)

lemma tryExtractChunksIncremental_no_transport:
  "requestUrl config = None \<Longrightarrow>
     tryExtractChunksIncremental e config t c ex
       = Inl (ErrorObject ''TypeError'' (notFunctionMessage e ''this.config.requestUrl''))"
  by (simp add: tryExtractChunksIncremental_def callRequestUrl_def)

lemma serviceConfig_fields:
  "requestUrl (serviceConfig st) = None"
  "apiKey (serviceConfig st) = llmApiKey st"
  "normalizeApiBase (orElse (apiBase (serviceConfig st)) ''https://api.openai.com/v1'')
     = normalizeApiBase (orElse (Some (llmApiBase st)) ''https://api.openai.com/v1'')"
  by (simp_all add: serviceConfig_def orElse_def)

lemma extract_as_built:
  assumes "activeFile a = Some file" and "llmApiKey (settings a) \<noteq> ''''"
    and "existing = (if incremental then getChunksByNotePath (path file) s else [])"
  shows "extractChunksFromActiveNote e a incremental s
           = s\<lparr>notices := notices s @
                [ExtractingChunks,
                 ExtractionFailed
                   (rethrow (if existing = [] then ''Failed to extract chunks: ''
                             else ''Failed to extract chunks incrementally: '')
                      (normalizeApiBase
                         (orElse (Some (llmApiBase (settings a))) ''https://api.openai.com/v1''))
                      (ErrorObject ''TypeError''
                         (notFunctionMessage e ''this.config.requestUrl'')))]\<rparr>"
proof -
  let ?config = "serviceConfig (settings a)"
  let ?base = "normalizeApiBase
      (orElse (Some (llmApiBase (settings a))) ''https://api.openai.com/v1'')"
  let ?t = "ErrorObject ''TypeError'' (notFunctionMessage e ''this.config.requestUrl'')"
  have whole: "extractChunksFromActiveNote e a incremental s
      = extractWithConfig e ?config file (vault_read a (path file)) incremental s"
    using assms(1,2) by (simp add: extractChunksFromActiveNote_def)
  have plain: "extractChunks e ?config t c = Inl (rethrow ''Failed to extract chunks: '' ?base ?t)"
    for t c
    using assms(2)
    by (simp add: extractChunks_def tryExtractChunks_no_transport serviceConfig_fields)
  have incr: "extractChunksIncremental e ?config t c ex
      = Inl (rethrow ''Failed to extract chunks incrementally: '' ?base ?t)" for t c ex
    using assms(2)
    by (simp add: extractChunksIncremental_def tryExtractChunksIncremental_no_transport
        serviceConfig_fields)
  show ?thesis
    unfolding whole
    by (rule extract_call_failed [OF assms(3)]) (simp add: plain incr)
qed

text \<open>What the \<^verbatim>\<open>try\<close> block of the incremental call throws, cause by cause.\<close>

lemma tryExtractChunksIncremental_transport_throws:
  "requestUrl config = Some transport
   \<Longrightarrow> transport (requestParam config (BuildIncrementalPrompt t c ex) 0.3) = Inl thrown
   \<Longrightarrow> tryExtractChunksIncremental e config t c ex = Inl thrown"
  by (simp add: tryExtractChunksIncremental_def callRequestUrl_def)

lemma tryExtractChunksIncremental_status:
  "requestUrl config = Some transport
   \<Longrightarrow> transport (requestParam config (BuildIncrementalPrompt t c ex) 0.3) = Inr r
   \<Longrightarrow> status r < 200 \<or> 300 \<le> status r
   \<Longrightarrow> tryExtractChunksIncremental e config t c ex =
         Inl (ErrorObject ''Error''
                (''LLM API error: '' @
                 (case json r of
                    JsonObject b \<Rightarrow>
                      orElse (error_message b)
                        (orElse (message b)
                           (orElse (Some (text_response r))
                              (''HTTP '' @ numberToString e (of_int (status r)))))
                  | _ \<Rightarrow> orElse (Some (text_response r))
                           (''HTTP '' @ numberToString e (of_int (status r))))))"
  by (auto simp add: tryExtractChunksIncremental_def callRequestUrl_def readContent_def Let_def
      split: jsonView.splits)

text \<open>
  C3. Let a note be active; \<open>failed m\<close> is the state before the call with nothing changed
  but the two notices \<open>Extracting chunks using LLM...\<close> and \<open>LLM extraction failed: m\<close>,
  and \<open>surfaced\<close> is the message that the \<^verbatim>\<open>catch\<close> block of the service makes of what was
  thrown.

  \<^item> If the key is not set, \<^verbatim>\<open>extractChunksFromActiveNote\<close> changes nothing but to show
    that the key is not configured.

  \<^item> If the key is set, the function ends in \<open>failed m\<close>, for every environment, whatever
    the service would answer: the manager builds its service without a transport, the
    call of the transport throws a type error, and \<open>m\<close> is the message that the service
    makes of it.

  \<^item> For a service of any configuration, so also one with a transport: whenever the call
    made (\<^verbatim>\<open>extractChunks\<close> without chunks of the note, \<^verbatim>\<open>extractChunksIncremental\<close> with)
    throws an error with the message \<open>m\<close>, the \<^verbatim>\<open>try\<close> statement ends in \<open>failed m\<close>.

  \<^item> Each of the two calls throws \<open>LLM API key not configured\<close> without a key, and else
    the \<open>surfaced\<close> message of whatever its \<^verbatim>\<open>try\<close> block throws: a fixed text for a
    timeout, a text naming the address for a network error, and else the prefix of the
    call followed by the message.

  \<^item> The \<^verbatim>\<open>try\<close> block of the incremental call throws: the type error without a
    transport; what the transport throws; \<open>LLM API error: ...\<close> with the message of the
    body, or the text, or the status, for a status outside 200 to 299; what reading the
    body throws; \<open>Invalid response format from LLM API\<close> or \<open>Empty response from LLM
    API\<close> for a body without content; \<open>Failed to parse LLM response as JSON: ...\<close> for a
    content that does not parse; and \<open>LLM response format invalid: ...\<close> when a field is
    there and is no array. In the one remaining case, a content that parses to a value
    whose fields are arrays or missing, the block returns the two arrays.
\<close>

theorem C3_failed_call_no_mutation:
  assumes "activeFile a = Some file"
    and "existing = (if incremental then getChunksByNotePath (path file) s else [])"
    and "failed = (\<lambda>m. s\<lparr>notices := notices s @ [ExtractingChunks, ExtractionFailed m]\<rparr>)"
    and "surfaced =
           (\<lambda>prefix base thrown.
              case thrown of
                ErrorObject n m \<Rightarrow>
                  if n = ''AbortError'' \<or> n = ''TimeoutError''
                  then ''Request timeout. Please check your network connection or try again.''
                  else if includes_str m ''Failed to fetch'' \<or> includes_str m ''ERR_CONNECTION''
                  then ''Network error: Cannot connect to '' @ base
                         @ ''. Please check your network connection and API endpoint.''
                  else prefix @ m
              | NonError v \<Rightarrow> prefix @ v)"
  shows
    "(llmApiKey (settings a) = ''''
        \<longrightarrow> extractChunksFromActiveNote e a incremental s
              = s\<lparr>notices := notices s @ [ApiKeyNotConfigured]\<rparr>)
     \<and> (llmApiKey (settings a) \<noteq> ''''
        \<longrightarrow> extractChunksFromActiveNote e a incremental s
              = failed (surfaced
                          (if existing = [] then ''Failed to extract chunks: ''
                           else ''Failed to extract chunks incrementally: '')
                          (normalizeApiBase
                             (orElse (Some (llmApiBase (settings a)))
                                ''https://api.openai.com/v1''))
                          (ErrorObject ''TypeError''
                             (notFunctionMessage e ''this.config.requestUrl''))))
     \<and> (\<forall>config noteText m.
           (existing = [] \<and> extractChunks e config (basename file) noteText = Inl m
            \<or> existing \<noteq> []
               \<and> extractChunksIncremental e config (basename file) noteText
                   (map toExisting existing) = Inl m)
           \<longrightarrow> extractWithConfig e config file noteText incremental s = failed m)
     \<and> (\<forall>config title body.
           extractChunks e config title body =
             (if apiKey config = '''' then Inl ''LLM API key not configured''
              else case tryExtractChunks e config title body of
                     Inl thrown \<Rightarrow>
                       Inl (surfaced ''Failed to extract chunks: ''
                              (normalizeApiBase
                                 (orElse (apiBase config) ''https://api.openai.com/v1''))
                              thrown)
                   | Inr cs \<Rightarrow> Inr cs))
     \<and> (\<forall>config title body ex.
           extractChunksIncremental e config title body ex =
             (if apiKey config = '''' then Inl ''LLM API key not configured''
              else case tryExtractChunksIncremental e config title body ex of
                     Inl thrown \<Rightarrow>
                       Inl (surfaced ''Failed to extract chunks incrementally: ''
                              (normalizeApiBase
                                 (orElse (apiBase config) ''https://api.openai.com/v1''))
                              thrown)
                   | Inr res \<Rightarrow> Inr res))
     \<and> (\<forall>config title body ex.
           requestUrl config = None
           \<longrightarrow> tryExtractChunksIncremental e config title body ex
                 = Inl (ErrorObject ''TypeError''
                          (notFunctionMessage e ''this.config.requestUrl'')))
     \<and> (\<forall>config title body ex transport thrown.
           requestUrl config = Some transport
           \<and> transport (requestParam config (BuildIncrementalPrompt title body ex) 0.3)
               = Inl thrown
           \<longrightarrow> tryExtractChunksIncremental e config title body ex = Inl thrown)
     \<and> (\<forall>config title body ex transport r.
           requestUrl config = Some transport
           \<and> transport (requestParam config (BuildIncrementalPrompt title body ex) 0.3) = Inr r
           \<and> (status r < 200 \<or> 300 \<le> status r)
           \<longrightarrow> tryExtractChunksIncremental e config title body ex =
                 Inl (ErrorObject ''Error''
                        (''LLM API error: '' @
                         (case json r of
                            JsonObject b \<Rightarrow>
                              orElse (error_message b)
                                (orElse (message b)
                                   (orElse (Some (text_response r))
                                      (''HTTP '' @ numberToString e (of_int (status r)))))
                          | _ \<Rightarrow> orElse (Some (text_response r))
                                   (''HTTP '' @ numberToString e (of_int (status r)))))))
     \<and> (\<forall>config title body ex transport r b thrown.
           requestUrl config = Some transport
           \<and> transport (requestParam config (BuildIncrementalPrompt title body ex) 0.3) = Inr r
           \<and> 200 \<le> status r \<and> status r < 300
           \<longrightarrow> (json r = JsonThrows thrown
                   \<longrightarrow> tryExtractChunksIncremental e config title body ex = Inl thrown)
               \<and> (json r = JsonOther
                   \<longrightarrow> tryExtractChunksIncremental e config title body ex
                         = Inl (ErrorObject ''TypeError'' (nullPropertyMessage e ''choices'')))
               \<and> (json r = JsonObject b \<and> choice b = None
                   \<longrightarrow> tryExtractChunksIncremental e config title body ex
                         = Inl (ErrorObject ''Error'' ''Invalid response format from LLM API''))
               \<and> (json r = JsonObject b
                     \<and> (choice b = Some None \<or> choice b = Some (Some ''''))
                   \<longrightarrow> tryExtractChunksIncremental e config title body ex
                         = Inl (ErrorObject ''Error'' ''Empty response from LLM API'')))
     \<and> (\<forall>config title body ex transport r b reply parseMessage x y ds cs.
           requestUrl config = Some transport
           \<and> transport (requestParam config (BuildIncrementalPrompt title body ex) 0.3) = Inr r
           \<and> 200 \<le> status r \<and> status r < 300
           \<and> json r = JsonObject b \<and> choice b = Some (Some reply) \<and> reply \<noteq> ''''
           \<longrightarrow> (JSON_parse_incremental e reply = Inl parseMessage
                   \<longrightarrow> tryExtractChunksIncremental e config title body ex
                         = Inl (ErrorObject ''Error''
                                  (''Failed to parse LLM response as JSON: '' @ parseMessage)))
               \<and> (JSON_parse_incremental e reply = Inr IncrementalNull
                   \<longrightarrow> tryExtractChunksIncremental e config title body ex
                         = Inl (ErrorObject ''TypeError''
                                  (nullPropertyMessage e ''existing_chunks'')))
               \<and> (JSON_parse_incremental e reply = Inr (IncrementalValue x y)
                     \<and> (x = NotArray \<or> y = NotArray)
                   \<longrightarrow> tryExtractChunksIncremental e config title body ex
                         = Inl (ErrorObject ''Error''
                                  ''LLM response format invalid: existing_chunks and new_chunks must be arrays''))
               \<and> (JSON_parse_incremental e reply = Inr (IncrementalValue x y)
                     \<and> arrayOrEmpty x = Some ds \<and> arrayOrEmpty y = Some cs
                   \<longrightarrow> tryExtractChunksIncremental e config title body ex
                         = Inr \<lparr>existing_chunks = ds, new_chunks = cs\<rparr>))"
  unfolding assms(3,4)
  apply (intro conjI allI)
  subgoal using extract_key_absent [OF assms(1)] by blast
  subgoal using extract_as_built [OF assms(1) _ assms(2)] by (simp add: rethrow_def)
  subgoal using extract_call_failed [OF assms(2)] by blast
  subgoal by (simp add: extractChunks_def rethrow_def Let_def split: sum.splits)
  subgoal by (simp add: extractChunksIncremental_def rethrow_def Let_def split: sum.splits)
  subgoal using tryExtractChunksIncremental_no_transport by blast
  subgoal using tryExtractChunksIncremental_transport_throws by blast
  subgoal using tryExtractChunksIncremental_status by blast
  subgoal
    by (auto simp add: tryExtractChunksIncremental_def callRequestUrl_def readContent_def)
  subgoal
    by (auto simp add: tryExtractChunksIncremental_def callRequestUrl_def readContent_def
        arrayOrEmpty_def split: arrayField.splits)
  done

theorem C3_failed_call_no_mutation_witness:
  "extractChunksFromActiveNote sampleEnv sampleApp True sampleManager
     = sampleManager\<lparr>notices :=
         [ExtractingChunks,
          ExtractionFailed
            ''Failed to extract chunks incrementally: this.config.requestUrl is not a function'']\<rparr>
   \<and> extractWithConfig sampleEnv failingConfig sampleFile ''Some note text.'' True sampleManager
     = sampleManager\<lparr>notices :=
         [ExtractingChunks,
          ExtractionFailed
            ''Failed to extract chunks incrementally: LLM API error: Service Unavailable'']\<rparr>"
proof -
  have active: "activeFile sampleApp = Some sampleFile"
    by (simp add: sampleApp_def)
  have key: "llmApiKey (settings sampleApp) \<noteq> ''''"
    by (simp add: sampleApp_def)
  have existing: "(if True then getChunksByNotePath (path sampleFile) sampleManager else [])
      = [sampleChunk]"
    by (simp add: getChunksByNotePath_def getAllChunks_def sampleManager_def sampleChunk_def
        sampleFile_def)
  have none: "notices sampleManager = []"
    by (simp add: sampleManager_def)
  have call: "extractChunksIncremental sampleEnv failingConfig (basename sampleFile)
      ''Some note text.'' (map toExisting [sampleChunk])
      = Inl ''Failed to extract chunks incrementally: LLM API error: Service Unavailable''"
    by (simp add: extractChunksIncremental_def tryExtractChunksIncremental_def
        callRequestUrl_def failingConfig_def sampleConfig_def sampleResponse_def
        readContent_def rethrow_def orElse_def Let_def)
  note c3 = C3_failed_call_no_mutation [OF active refl refl refl,
      where incremental = True and s = sampleManager and e = sampleEnv,
      unfolded existing none]
  have "extractChunksFromActiveNote sampleEnv sampleApp True sampleManager
     = sampleManager\<lparr>notices :=
         [ExtractingChunks,
          ExtractionFailed
            ''Failed to extract chunks incrementally: this.config.requestUrl is not a function'']\<rparr>"
    using c3 key by (simp add: sampleEnv_def)
  moreover have "extractWithConfig sampleEnv failingConfig sampleFile ''Some note text.'' True
      sampleManager
     = sampleManager\<lparr>notices :=
         [ExtractingChunks,
          ExtractionFailed
            ''Failed to extract chunks incrementally: LLM API error: Service Unavailable'']\<rparr>"
    using c3 call by simp
  ultimately show ?thesis ..
qed

text \<open>
  A reply whose arrays hold an element of another type than the declared one is not a
  failure of the call, which returns the arrays as they are; it makes the \<^verbatim>\<open>for\<close>
  statement throw. With a service that has a transport, and the reply of the two
  decisions \<^verbatim>\<open>{"id": "n.md-1-abc", "action": "delete"}\<close> and \<^verbatim>\<open>null\<close>: the first decision is
  carried out, the second throws, and the \<^verbatim>\<open>catch\<close> block shows the message; the chunk
  is gone from the store and still among the saved chunks.
\<close>

lemma null_element_after_delete:
  "extractWithConfig nullElementEnv sampleConfig sampleFile ''Some note text.'' True sampleManager
     = sampleManager\<lparr>chunks := [],
         notices := [ExtractingChunks, ExtractionFailed ''Cannot read properties of null'']\<rparr>"
proof -
  have existing: "getChunksByNotePath ''n.md'' (notify ExtractingChunks sampleManager)
      = [sampleChunk]"
    by (simp add: getChunksByNotePath_def getAllChunks_def notify_def sampleManager_def
        sampleChunk_def)
  have refs: "existingRefs ''n.md'' (notify ExtractingChunks sampleManager)
      = [(''n.md-1-abc'', ''n.md-1-abc'')]"
    by (simp add: existingRefs_def notify_def sampleManager_def sampleChunk_def)
  have call: "extractChunksIncremental nullElementEnv sampleConfig ''n'' ''Some note text.''
      [toExisting sampleChunk]
      = Inr \<lparr>existing_chunks =
               [TypedElement \<lparr>id_decision = ''n.md-1-abc'', action = Delete,
                               modified_content = None, update_level = None\<rparr>,
                NullElement],
             new_chunks = []\<rparr>"
    by (simp add: extractChunksIncremental_def tryExtractChunksIncremental_def
        callRequestUrl_def sampleConfig_def okResponse_def readContent_def arrayOrEmpty_def
        nullElementEnv_def Let_def)
  have names: "path sampleFile = ''n.md''" "basename sampleFile = ''n''"
    by (simp_all add: sampleFile_def)
  have "extractWithConfig nullElementEnv sampleConfig sampleFile ''Some note text.'' True
      sampleManager
    = notify (ExtractionFailed (nullPropertyMessage nullElementEnv ''id''))
        (fst (applyDecision nullElementEnv [(''n.md-1-abc'', ''n.md-1-abc'')]
                (notify ExtractingChunks sampleManager, noCounts)
                \<lparr>id_decision = ''n.md-1-abc'', action = Delete, modified_content = None,
                   update_level = None\<rparr>))"
    unfolding extractWithConfig_def Let_def names if_True existing refs
    by (simp add: call)
  then show ?thesis
    by (simp add: applyDecision_def notify_def sampleManager_def nullElementEnv_def
        sampleEnv_def)
qed

section \<open>The content of a chunk\<close>

lemma stripStart_fixed:
  assumes "stripped ps s"
  shows "stripStart ps s = s"
proof (cases s)
  case Nil
  then show ?thesis by simp
next
  case (Cons c cs)
  have "find (\<lambda>p. p \<noteq> [] \<and> take (length p) (c # cs) = p) ps = None"
    using assms Cons unfolding stripped_def find_None_iff by blast
  then show ?thesis
    using Cons by simp
qed

lemma stripStart_stripped: "stripped ps (stripStart ps s)"
proof (induction ps s rule: stripStart.induct)
  case (1 ps)
  then show ?case by (auto simp add: stripped_def)
next
  case (2 ps c cs)
  then show ?case
    by (auto simp add: stripped_def find_None_iff split: option.splits)
qed

lemma stripStart_suffix: "\<exists>k. stripStart ps s = drop k s"
proof (induction ps s rule: stripStart.induct)
  case (1 ps)
  then show ?case by simp
next
  case (2 ps c cs)
  show ?case
  proof (cases "find (\<lambda>p. p \<noteq> [] \<and> take (length p) (c # cs) = p) ps")
    case None
    then have "stripStart ps (c # cs) = drop 0 (c # cs)" by simp
    then show ?thesis by blast
  next
    case (Some p)
    with 2 obtain k where
      "stripStart ps (drop (length p - 1) cs) = drop k (drop (length p - 1) cs)"
      by blast
    with Some have "stripStart ps (c # cs) = drop (Suc (k + (length p - 1))) (c # cs)"
      by (simp add: add.commute)
    then show ?thesis by blast
  qed
qed

lemma stripped_prefix:
  assumes "stripped ps u"
  shows "stripped ps (take n u)"
  unfolding stripped_def
proof (intro ballI impI)
  fix p assume p: "p \<in> set ps" "p \<noteq> []"
  show "take (length p) (take n u) \<noteq> p"
  proof
    assume eq: "take (length p) (take n u) = p"
    then have "length p \<le> n"
      by (metis length_take min.cobounded2 min.absorb_iff1 take_take min.commute)
    then have "take (length p) u = p"
      using eq by (simp add: min_def)
    with assms p show False by (simp add: stripped_def)
  qed
qed

lemma trim_idem: "trim (trim s) = trim s"
proof -
  define u where "u = stripStart whiteSpace s"
  define w where "w = stripStart (map rev whiteSpace) (rev u)"
  have trim_s: "trim s = rev w"
    by (simp add: trim_def u_def w_def)
  obtain k where "w = drop k (rev u)"
    unfolding w_def using stripStart_suffix by blast
  then have "rev w = take (length u - k) u"
    by (simp add: rev_drop)
  moreover have "stripped whiteSpace u"
    unfolding u_def by (rule stripStart_stripped)
  ultimately have "stripped whiteSpace (rev w)"
    by (simp add: stripped_prefix)
  then have "stripStart whiteSpace (rev w) = rev w"
    by (rule stripStart_fixed)
  moreover have "stripStart (map rev whiteSpace) w = w"
    unfolding w_def by (intro stripStart_fixed stripStart_stripped)
  ultimately show ?thesis
    by (simp add: trim_s) (simp add: trim_def)
qed

lemma trim_empty: "trim '''' = ''''"
  by (simp add: trim_def)

lemma trim_samples:
  "trim ''old text'' = ''old text''"
  "trim ''   '' = ''''"
  "trim '' Well done. '' = ''Well done.''"
  "trim [CHR 0x20, CHR 0xC2, CHR 0xA0, CHR ''n'', CHR ''e'', CHR ''w'', CHR 0xE2, CHR 0x80,
         CHR 0xA8, CHR 0x0A] = ''new''"
  by (simp_all add: trim_def whiteSpace_def)

text \<open>
  The creation of chunks keeps the invariant: a content that is missing, empty or made
  of white space is skipped, and the content of a new chunk is the trimmed text.
\<close>

lemma createNewChunk_content: "content (createNewChunk e t r body np) = trim body"
  by (simp add: createNewChunk_def Let_def)

lemma addNewChunk_skips:
  "content_llm c = None \<or> (\<exists>body. content_llm c = Some body \<and> trim body = [])
     \<Longrightarrow> addNewChunk e p (s, n) c = (s, n)"
  by (auto simp add: addNewChunk_def)

lemma addNewChunk_adds:
  assumes "content_llm c = Some body" and "trim body \<noteq> []"
  shows "chunks (fst (addNewChunk e p (s, n) c))
           = AList.update (id_chunk (createNewChunk e (clock s) (draws s) body p))
               (createNewChunk e (clock s) (draws s) body p) (chunks s)"
proof -
  have "body \<noteq> []"
    using assms(2) trim_empty by auto
  then show ?thesis
    using assms by (simp add: addNewChunk_def Let_def addChunk_def)
qed

lemma update_set: "set (AList.update k v al) \<subseteq> insert (k, v) (set al)"
  by (induction al) auto

lemma addNewChunk_contentful:
  assumes inv: "contentful s"
  shows "contentful (fst (addNewChunk e p (s, n) c))"
proof (cases "content_llm c")
  case None
  then show ?thesis
    using inv by (simp add: addNewChunk_def)
next
  case (Some body)
  show ?thesis
  proof (cases "trim body = []")
    case True
    then show ?thesis
      using Some inv addNewChunk_skips [of c e p s n] by simp
  next
    case False
    let ?c = "createNewChunk e (clock s) (draws s) body p"
    have "trim (content ?c) \<noteq> []"
      using False by (simp add: createNewChunk_content trim_idem)
    moreover have "set (chunks (fst (addNewChunk e p (s, n) c)))
        \<subseteq> insert (id_chunk ?c, ?c) (set (chunks s))"
      using addNewChunk_adds [OF Some False, of e p s n] update_set [of "id_chunk ?c" ?c "chunks s"]
      by simp
    ultimately show ?thesis
      using inv unfolding contentful_def by blast
  qed
qed

lemma addNewChunks_contentful:
  "contentful (fst sc) \<Longrightarrow> contentful (fst (snd (addNewChunks e p cs sc)))"
proof (induction cs arbitrary: sc)
  case Nil
  then show ?case by simp
next
  case (Cons x cs)
  show ?case
  proof (cases x)
    case NullElement
    then show ?thesis using Cons.prems by simp
  next
    case OtherElement
    then show ?thesis using Cons by simp
  next
    case (NonStringContent c)
    then show ?thesis using Cons.prems by simp
  next
    case (TypedElement c)
    have "contentful (fst (addNewChunk e p sc c))"
      using Cons.prems addNewChunk_contentful [of "fst sc" e p "snd sc" c] by simp
    then show ?thesis
      using TypedElement Cons.IH by simp
  qed
qed

text \<open>
  A decision to modify that carries no content, or the empty one, changes nothing.
\<close>

lemma applyDecision_without_content:
  "action d = Modify \<Longrightarrow> modified_content d = None \<or> modified_content d = Some ''''
     \<Longrightarrow> applyDecision e refs (s, n) d = (s, n)"
  by (auto simp add: applyDecision_def split: option.splits)

text \<open>A decision to keep or to delete a chunk stores no content.\<close>

lemma delete_set: "set (AList.delete k al) \<subseteq> set al"
  by (induction al) auto

lemma applyDecision_keep_delete_contentful:
  assumes "action d \<noteq> Modify" and "contentful s"
  shows "contentful (fst (applyDecision e refs (s, n) d))"
proof -
  have "set (chunks (fst (applyDecision e refs (s, n) d))) \<subseteq> set (chunks s)"
    using assms(1) delete_set [of "id_decision d" "chunks s"]
    by (auto simp add: applyDecision_def split: option.splits)
  then show ?thesis
    using assms(2) unfolding contentful_def by blast
qed

text \<open>
  The \<^verbatim>\<open>modify\<close> branch tests that the content of the decision is not empty, and then
  stores the trimmed content: for a content of white space only that is the empty
  content. The test for a new chunk, next to it, trims before it tests.
\<close>

lemma applyModify_blank: "content (applyModify e t ''   '' level c) = ''''"
  by (simp add: applyModify_def Let_def trim_samples)

text \<open>
  \<^verbatim>\<open>updateChunk\<close> stores the content that the update carries, whatever it is: here the
  empty content, in place of \<open>old text\<close>.
\<close>

theorem C4_updateChunk_empty_content_counterexample:
  "map_option content (map_of (chunks sampleManager) ''n.md-1-abc'') = Some ''old text''
   \<and> trim ''old text'' = ''old text''
   \<and> map_option content
        (map_of (chunks (updateChunk sampleEnv ''n.md-1-abc''
                           (noUpdates\<lparr>content_upd := Some ''''\<rparr>) sampleManager))
           ''n.md-1-abc'') = Some ''''
   \<and> trim '''' = ''''"
proof -
  have "map_option content
        (map_of (chunks (updateChunk sampleEnv ''n.md-1-abc''
                           (noUpdates\<lparr>content_upd := Some ''''\<rparr>) sampleManager))
           ''n.md-1-abc'') = Some ''''"
    using updateChunk_stored [OF sample_stored, of sampleEnv "noUpdates\<lparr>content_upd := Some ''''\<rparr>"]
    by (simp add: Object_assign_fields noUpdates_def)
  moreover have "map_option content (map_of (chunks sampleManager) ''n.md-1-abc'')
      = Some ''old text''"
    by (simp add: sampleManager_def sampleChunk_def)
  ultimately show ?thesis
    by (simp add: trim_samples trim_empty)
qed

text \<open>
  C4. Going through the new chunks of a reply keeps the invariant that the content of
  every stored chunk is non-empty after trimming, whether the statement ends or throws.
  A new chunk whose content is missing, empty or white space only is skipped; for any
  other content one chunk is stored, with the trimmed text as its content, which is
  non-empty and trimmed. A decision to modify that carries no content, or the empty
  one, changes nothing, and a decision to keep or to delete keeps the invariant.
  \<^verbatim>\<open>updateChunk\<close> stores the content that the update carries, without a test.
\<close>

theorem C4_creation_keeps_content:
  "(contentful (fst sc) \<longrightarrow> contentful (fst (snd (addNewChunks e p cs sc))))
   \<and> (contentful s \<longrightarrow> contentful (fst (addNewChunk e p (s, n) c)))
   \<and> (content_llm c = None \<or> (\<exists>body. content_llm c = Some body \<and> trim body = '''')
        \<longrightarrow> addNewChunk e p (s, n) c = (s, n))
   \<and> (\<forall>body. content_llm c = Some body \<and> trim body \<noteq> ''''
        \<longrightarrow> chunks (fst (addNewChunk e p (s, n) c))
              = AList.update (id_chunk (createNewChunk e (clock s) (draws s) body p))
                  (createNewChunk e (clock s) (draws s) body p) (chunks s)
            \<and> content (createNewChunk e (clock s) (draws s) body p) = trim body
            \<and> trim (trim body) = trim body)
   \<and> (action d = Modify \<and> (modified_content d = None \<or> modified_content d = Some '''')
        \<longrightarrow> applyDecision e refs (s, n) d = (s, n))
   \<and> (action d \<noteq> Modify \<and> contentful s
        \<longrightarrow> contentful (fst (applyDecision e refs (s, n) d)))
   \<and> (\<forall>chunk. map_of (chunks s) cid = Some chunk
        \<longrightarrow> map_option content (map_of (chunks (updateChunk e cid u s)) cid)
              = Some (case content_upd u of None \<Rightarrow> content chunk | Some body \<Rightarrow> body))"
proof -
  have stored: "map_option content (map_of (chunks (updateChunk e cid u s)) cid)
      = Some (case content_upd u of None \<Rightarrow> content chunk | Some body \<Rightarrow> body)"
    if "map_of (chunks s) cid = Some chunk" for chunk
    using updateChunk_stored [OF that, of e u] by (simp add: Object_assign_fields)
  show ?thesis
    using addNewChunks_contentful [of sc e p cs] addNewChunk_contentful [of s e p n c]
      addNewChunk_skips [of c e p s n] addNewChunk_adds [of c _ e p s n]
      createNewChunk_content [of e "clock s" "draws s" _ p] trim_idem
      applyDecision_without_content [of d e refs s n]
      applyDecision_keep_delete_contentful [of d s e refs n] stored
    by (intro conjI allI impI) auto
qed

theorem C4_creation_keeps_content_witness:
  "contentful sampleManager
   \<and> contentful (fst (snd (addNewChunks sampleEnv ''n.md''
        [TypedElement \<lparr>content_llm = Some ''   ''\<rparr>, TypedElement \<lparr>content_llm = Some '' new ''\<rparr>,
         NullElement]
        (sampleManager, noCounts))))
   \<and> addNewChunk sampleEnv ''n.md'' (sampleManager, noCounts) \<lparr>content_llm = Some ''   ''\<rparr>
       = (sampleManager, noCounts)
   \<and> content (createNewChunk sampleEnv 0 0 '' new '' ''n.md'') = ''new''
   \<and> applyDecision sampleEnv (existingRefs ''n.md'' sampleManager) (sampleManager, noCounts)
        (sampleDecision '''' Minor) = (sampleManager, noCounts)
   \<and> map_option content
        (map_of (chunks (updateChunk sampleEnv ''n.md-1-abc''
                           (noUpdates\<lparr>content_upd := Some ''newer text''\<rparr>) sampleManager))
           ''n.md-1-abc'') = Some ''newer text''"
proof -
  have before: "contentful sampleManager"
    by (simp add: contentful_def sampleManager_def sampleChunk_def trim_samples)
  have blank: "trim ''   '' = ''''" and new: "trim '' new '' = ''new''"
    by (simp_all add: trim_def whiteSpace_def)
  note c4 = C4_creation_keeps_content [where sc = "(sampleManager, noCounts)" and e = sampleEnv
      and p = "''n.md''"
      and cs = "[TypedElement \<lparr>content_llm = Some ''   ''\<rparr>,
                 TypedElement \<lparr>content_llm = Some '' new ''\<rparr>, NullElement]"
      and s = sampleManager and n = noCounts and d = "sampleDecision '''' Minor"
      and refs = "existingRefs ''n.md'' sampleManager" and cid = "''n.md-1-abc''"
      and u = "noUpdates\<lparr>content_upd := Some ''newer text''\<rparr>"]
  have "contentful (fst (snd (addNewChunks sampleEnv ''n.md''
        [TypedElement \<lparr>content_llm = Some ''   ''\<rparr>, TypedElement \<lparr>content_llm = Some '' new ''\<rparr>,
         NullElement]
        (sampleManager, noCounts))))"
    using c4 before by simp
  moreover have "addNewChunk sampleEnv ''n.md'' (sampleManager, noCounts)
      \<lparr>content_llm = Some ''   ''\<rparr> = (sampleManager, noCounts)"
    using c4 [where c = "\<lparr>content_llm = Some ''   ''\<rparr>"] blank
    by simp
  moreover have "content (createNewChunk sampleEnv 0 0 '' new '' ''n.md'') = ''new''"
    using c4 [where c = "\<lparr>content_llm = Some '' new ''\<rparr>"] new
    by (simp add: sampleManager_def)
  moreover have "applyDecision sampleEnv (existingRefs ''n.md'' sampleManager)
      (sampleManager, noCounts) (sampleDecision '''' Minor) = (sampleManager, noCounts)"
    using c4 by (simp add: sampleDecision_def)
  moreover have "map_option content
        (map_of (chunks (updateChunk sampleEnv ''n.md-1-abc''
                           (noUpdates\<lparr>content_upd := Some ''newer text''\<rparr>) sampleManager))
           ''n.md-1-abc'') = Some ''newer text''"
    using c4 sample_stored by (simp add: noUpdates_def)
  ultimately show ?thesis
    using before by blast
qed

section \<open>The grade of a tutoring reply\<close>

lemma clamp_grade:
  "\<exists>g \<in> {0, 1, 2, 3, 4, 5 :: int}. max 0 (min 5 (Math_round x)) = of_int g"
proof -
  define k where "k = max 0 (min 5 \<lfloor>x + 1 / 2\<rfloor>)"
  have "max 0 (min 5 (Math_round x)) = of_int k"
    by (simp add: Math_round_def k_def max_def min_def)
  moreover have "0 \<le> k" and "k \<le> 5"
    by (simp_all add: k_def)
  then have "k \<in> {0, 1, 2, 3, 4, 5}"
    by auto
  ultimately show ?thesis
    by blast
qed

lemma generatePushResponse_evaluation:
  assumes "callJsonPrompt e config (BuildPushResponsePrompt params) = Inr (PromptValue result)"
    and "truthy (response_json result)"
    and "evaluation_json result = Some ev"
  shows "\<exists>res ev'. generatePushResponse e config params = Inr res
           \<and> evaluation res = Some ev'
           \<and> grade ev' =
               (if grade_json ev = JUndefined \<or> grade_json ev = JNull then Fin 3
                else case Number e (grade_json ev) of
                       NaN \<Rightarrow> Fin 3
                     | Fin x \<Rightarrow> Fin (max 0 (min 5 (Math_round x)))
                     | PosInf \<Rightarrow> Fin 5
                     | NegInf \<Rightarrow> Fin 0)"
  using assms
  by (cases "Number e (grade_json ev)")
     (simp_all add: generatePushResponse_def Let_def isNaN_def)

text \<open>
  The reply \<^verbatim>\<open>{"response": " Well done. ", "should_end": true, "evaluation": {"grade":
  true, ...}}\<close>: the grade is not a number, and the grade returned is 1, not 3.
\<close>


theorem C10_boolean_grade_counterexample:
  "generatePushResponse (gradeEnv (JBool True)) sampleConfig sampleParams =
     Inr \<lparr>response = ''Well done.'', shouldEnd = True,
          evaluation =
            Some \<lparr>grade = Fin 1, recommendation = JStr ''Review again tomorrow.'',
                  confidence = None\<rparr>\<rparr>"
  by (simp add: generatePushResponse_def callJsonPrompt_def callRequestUrl_def gradeEnv_def
      gradeReply_def sampleConfig_def okResponse_def isNaN_def Math_round_def Let_def
      trim_samples)

text \<open>
  C10. For a reply of the tutoring service that has an answer text and an evaluation
  object, the grade returned is one of the integers 0 to 5. It is 3 when the grade of
  the reply is missing or \<^verbatim>\<open>null\<close>, or when \<^verbatim>\<open>Number\<close> makes \<^verbatim>\<open>NaN\<close> of it. Else it is the
  number that \<^verbatim>\<open>Number\<close> makes of it (the number itself for a number, 1 and 0 for
  \<^verbatim>\<open>true\<close> and \<^verbatim>\<open>false\<close>), rounded and clamped between 0 and 5, which makes 5 and 0 of
  the two infinities.
\<close>

theorem C10_grade_range:
  assumes "callJsonPrompt e config (BuildPushResponsePrompt params) = Inr (PromptValue result)"
    and "truthy (response_json result)"
    and "evaluation_json result = Some ev"
  shows "\<exists>res ev'. generatePushResponse e config params = Inr res
           \<and> evaluation res = Some ev'
           \<and> (\<exists>g \<in> {0, 1, 2, 3, 4, 5 :: int}. grade ev' = Fin (of_int g))
           \<and> (grade_json ev = JUndefined \<or> grade_json ev = JNull
                 \<or> Number e (grade_json ev) = NaN \<longrightarrow> grade ev' = Fin 3)
           \<and> (\<forall>x. grade_json ev = JNum (Fin x)
                 \<longrightarrow> grade ev' = Fin (max 0 (min 5 (Math_round x))))
           \<and> (\<forall>x. grade_json ev \<noteq> JUndefined \<and> grade_json ev \<noteq> JNull
                     \<and> Number e (grade_json ev) = Fin x
                 \<longrightarrow> grade ev' = Fin (max 0 (min 5 (Math_round x))))
           \<and> (grade_json ev \<noteq> JUndefined \<and> grade_json ev \<noteq> JNull
                 \<and> Number e (grade_json ev) = PosInf \<longrightarrow> grade ev' = Fin 5)
           \<and> (grade_json ev \<noteq> JUndefined \<and> grade_json ev \<noteq> JNull
                 \<and> Number e (grade_json ev) = NegInf \<longrightarrow> grade ev' = Fin 0)"
proof -
  from generatePushResponse_evaluation [OF assms]
  obtain res ev' where res: "generatePushResponse e config params = Inr res"
    and ev': "evaluation res = Some ev'"
    and g: "grade ev' =
               (if grade_json ev = JUndefined \<or> grade_json ev = JNull then Fin 3
                else case Number e (grade_json ev) of
                       NaN \<Rightarrow> Fin 3
                     | Fin x \<Rightarrow> Fin (max 0 (min 5 (Math_round x)))
                     | PosInf \<Rightarrow> Fin 5
                     | NegInf \<Rightarrow> Fin 0)"
    by blast
  have range: "\<exists>g \<in> {0, 1, 2, 3, 4, 5 :: int}. grade ev' = Fin (of_int g)"
  proof (cases "grade_json ev = JUndefined \<or> grade_json ev = JNull")
    case True
    then have "grade ev' = Fin (of_int 3)" using g by simp
    then show ?thesis by blast
  next
    case False
    show ?thesis
    proof (cases "Number e (grade_json ev)")
      case NaN
      then have "grade ev' = Fin (of_int 3)" using g False by simp
      then show ?thesis by blast
    next
      case (Fin x)
      then show ?thesis using g False clamp_grade [of x] by simp
    next
      case PosInf
      then have "grade ev' = Fin (of_int 5)" using g False by simp
      then show ?thesis by blast
    next
      case NegInf
      then have "grade ev' = Fin (of_int 0)" using g False by simp
      then show ?thesis by blast
    qed
  qed
  have missing: "grade_json ev = JUndefined \<or> grade_json ev = JNull
      \<or> Number e (grade_json ev) = NaN \<longrightarrow> grade ev' = Fin 3"
    using g by auto
  have numeric: "grade ev' = Fin (max 0 (min 5 (Math_round x)))"
    if "grade_json ev = JNum (Fin x)
          \<or> grade_json ev \<noteq> JUndefined \<and> grade_json ev \<noteq> JNull
             \<and> Number e (grade_json ev) = Fin x" for x
    using that g by auto
  have infinite: "(grade_json ev \<noteq> JUndefined \<and> grade_json ev \<noteq> JNull
        \<and> Number e (grade_json ev) = PosInf \<longrightarrow> grade ev' = Fin 5)
      \<and> (grade_json ev \<noteq> JUndefined \<and> grade_json ev \<noteq> JNull
        \<and> Number e (grade_json ev) = NegInf \<longrightarrow> grade ev' = Fin 0)"
    using g by auto
  show ?thesis
    using res ev' range missing numeric infinite by blast
qed

theorem C10_grade_range_witness:
  "\<exists>res ev'. generatePushResponse (gradeEnv (JNum (Fin 7.6))) sampleConfig sampleParams = Inr res
     \<and> evaluation res = Some ev' \<and> grade ev' = Fin 5"
proof -
  have call: "callJsonPrompt (gradeEnv (JNum (Fin 7.6))) sampleConfig
      (BuildPushResponsePrompt sampleParams) = Inr (PromptValue (gradeReply (JNum (Fin 7.6))))"
    by (simp add: callJsonPrompt_def callRequestUrl_def gradeEnv_def sampleConfig_def
        okResponse_def)
  have answer: "truthy (response_json (gradeReply (JNum (Fin 7.6))))"
    by (simp add: gradeReply_def)
  have ev: "evaluation_json (gradeReply (JNum (Fin 7.6))) =
      Some \<lparr>grade_json = JNum (Fin 7.6), recommendation_json = JStr ''Review again tomorrow.'',
            confidence_json = JUndefined\<rparr>"
    by (simp add: gradeReply_def)
  have "max 0 (min 5 (Math_round 7.6)) = 5"
    by (simp add: Math_round_def)
  with C10_grade_range [OF call answer ev] show ?thesis
    by auto
qed

end
